theory Spec2Isabelle
  imports Main "HOL-Library.Multiset"
begin

section \<open>Sheet-to-sound backend: score and conversion lifecycle\<close>

text \<open>
  A shallow embedding of the Hono server of the repository (the file that imports
  \<^verbatim>\<open>./kv_store.tsx\<close>): the upload, convert, completion, status, library and delete
  handlers, over an explicit key-value store. Every \<^verbatim>\<open>return c.json(..., status)\<close> with
  an error body is a value of \<open>http_error\<close>; everything that the environment decides
  (the clock, the identity provider, the blob store, a store call that throws) is an
  argument of the handler.
\<close>

subsection \<open>Data model\<close>

text \<open>
  The interfaces \<^verbatim>\<open>Score\<close> and \<^verbatim>\<open>Conversion\<close> of \<^verbatim>\<open>src/lib/types.ts\<close>. Both have
  the fields \<^verbatim>\<open>id\<close> and \<^verbatim>\<open>userId\<close>, so the record fields carry a prefix. An ISO-8601
  string written by \<^verbatim>\<open>new Date().toISOString()\<close> is kept as the instant it denotes, in
  milliseconds since the epoch (what \<^verbatim>\<open>new Date(s).getTime()\<close> reads back). An optional
  field (\<^verbatim>\<open>completedAt?\<close>) is an \<open>option\<close>: \<open>None\<close> is JavaScript's \<^verbatim>\<open>undefined\<close>.
\<close>

record score =
  s_id :: string
  s_userId :: string
  s_fileName :: string
  s_filePath :: string
  s_fileType :: string
  s_fileSize :: nat
  s_uploadedAt :: nat
  s_url :: string

datatype status = Processing | Completed | Failed

record voice_settings =
  enabled :: bool
  solo :: bool
  volume :: int

text \<open>The SATB configuration is a JSON object; \<^verbatim>\<open>{}\<close> is the empty association list.\<close>

type_synonym satb_config = "(string \<times> voice_settings) list"

record conversion =
  c_id :: string
  c_scoreId :: string
  c_userId :: string
  c_instruments :: "string list"
  c_satbConfig :: satb_config
  c_tempo :: int
  c_status :: status
  c_createdAt :: nat
  c_completedAt :: "nat option"
  c_audioUrl :: "string option"
  c_midiUrl :: "string option"
  c_audioPath :: "string option"
  c_midiPath :: "string option"
  c_error :: "string option"

text \<open>
  What the store holds under a key: a Score document, a Conversion document, or a
  per-user index (an array of ids).
\<close>

datatype doc = ScoreDoc score | ConvDoc conversion | IdList "string list"

text \<open>
  Property reads on a document of unknown kind (\<^verbatim>\<open>scoreMetadata.userId\<close>,
  \<^verbatim>\<open>c.scoreId\<close>, \<^verbatim>\<open>conversion.id\<close>, ...): \<open>None\<close> where JavaScript reads
  \<^verbatim>\<open>undefined\<close>.
\<close>

fun doc_id :: "doc \<Rightarrow> string option" where
  "doc_id (ScoreDoc s) = Some (s_id s)"
| "doc_id (ConvDoc c) = Some (c_id c)"
| "doc_id (IdList xs) = None"

fun doc_userId :: "doc \<Rightarrow> string option" where
  "doc_userId (ScoreDoc s) = Some (s_userId s)"
| "doc_userId (ConvDoc c) = Some (c_userId c)"
| "doc_userId (IdList xs) = None"

fun doc_scoreId :: "doc \<Rightarrow> string option" where
  "doc_scoreId (ConvDoc c) = Some (c_scoreId c)"
| "doc_scoreId (ScoreDoc s) = None"
| "doc_scoreId (IdList xs) = None"

fun doc_uploadedAt :: "doc \<Rightarrow> nat option" where
  "doc_uploadedAt (ScoreDoc s) = Some (s_uploadedAt s)"
| "doc_uploadedAt (ConvDoc c) = None"
| "doc_uploadedAt (IdList xs) = None"

text \<open>An error response: the HTTP status and the \<^verbatim>\<open>error\<close> message of the body.\<close>

datatype http_error = HttpError (http_status: nat) (http_message: string)

text \<open>
  The result of \<^verbatim>\<open>verifyAuth\<close>: the authenticated user's id, or the message of the
  401 response.
\<close>

datatype auth = AuthError string | AuthUser string

subsection \<open>Keys and ids\<close>

text \<open>
  The template literals that build keys. \<open>dec\<close> is the decimal text JavaScript gives a
  non-negative integer (\<^verbatim>\<open>Date.now()\<close>) in a template literal.
\<close>

definition digit :: "nat \<Rightarrow> char" where
  "digit d = ''0123456789'' ! d"

fun dec :: "nat \<Rightarrow> string" where
  "dec n = (if n < 10 then [digit n] else dec (n div 10) @ [digit (n mod 10)])"

declare dec.simps [simp del]

definition mkScoreId :: "string \<Rightarrow> nat \<Rightarrow> string" where
  "mkScoreId uid timestamp = ''score_'' @ uid @ ''_'' @ dec timestamp"

definition mkConversionId :: "string \<Rightarrow> nat \<Rightarrow> string" where
  "mkConversionId uid now = ''conversion_'' @ uid @ ''_'' @ dec now"

definition userScoresKey :: "string \<Rightarrow> string" where
  "userScoresKey uid = ''user_scores_'' @ uid"

definition userConversionsKey :: "string \<Rightarrow> string" where
  "userConversionsKey uid = ''user_conversions_'' @ uid"

text \<open>\<^verbatim>\<open>file.name.split('.').pop()\<close>: the text after the last dot, the whole name without one.\<close>

fun split_on :: "char \<Rightarrow> string \<Rightarrow> string list" where
  "split_on c [] = [[]]"
| "split_on c (x # xs) =
     (if x = c then [] # split_on c xs
      else (case split_on c xs of [] \<Rightarrow> [[x]] | w # ws \<Rightarrow> (x # w) # ws))"

definition fileExt :: "string \<Rightarrow> string" where
  "fileExt name = last (split_on CHR ''.'' name)"

definition mkFileName :: "string \<Rightarrow> nat \<Rightarrow> string \<Rightarrow> string" where
  "mkFileName uid timestamp name = uid @ ''/'' @ dec timestamp @ ''.'' @ fileExt name"

subsection \<open>The metadata store\<close>

type_synonym kv = "string \<rightharpoonup> doc"

text \<open>
  Modelled from the spec: \<^verbatim>\<open>kv_store.tsx\<close> (\<^verbatim>\<open>kv.get\<close>, \<^verbatim>\<open>kv.set\<close>, \<^verbatim>\<open>kv.del\<close>,
  \<^verbatim>\<open>kv.mget\<close>) is imported by the server and is not among the source files. The spec's
  Metadata Store is a key-value mapping from string keys to JSON documents with get, set,
  delete and multi-get; a multi-get returns the documents of the keys that exist, in the
  order asked, and omits the others.
\<close>

definition kv_get :: "kv \<Rightarrow> string \<Rightarrow> doc option" where
  "kv_get st k = st k"

definition kv_set :: "kv \<Rightarrow> string \<Rightarrow> doc \<Rightarrow> kv" where
  "kv_set st k v = st(k \<mapsto> v)"

definition kv_del :: "kv \<Rightarrow> string \<Rightarrow> kv" where
  "kv_del st k = st(k := None)"

definition kv_mget :: "kv \<Rightarrow> string list \<Rightarrow> doc list" where
  "kv_mget st ks = List.map_filter (kv_get st) ks"

text \<open>
  \<^verbatim>\<open>await kv.get(key) || []\<close> followed by a use of the value as an array
  (\<^verbatim>\<open>[...existing, id]\<close>, \<^verbatim>\<open>.filter\<close>, \<^verbatim>\<open>kv.mget\<close>): a missing key reads as the
  empty array; a stored array reads as itself (an empty array is truthy); a stored object
  is not iterable, and the use throws a \<^verbatim>\<open>TypeError\<close>, here \<open>None\<close>.
\<close>

fun get_ids :: "kv \<Rightarrow> string \<Rightarrow> string list option" where
  "get_ids st k =
     (case kv_get st k of
        None \<Rightarrow> Some []
      | Some (IdList xs) \<Rightarrow> Some xs
      | Some (ScoreDoc s) \<Rightarrow> None
      | Some (ConvDoc c) \<Rightarrow> None)"

subsection \<open>Authentication\<close>

text \<open>
  \<^verbatim>\<open>verifyAuth\<close>: the token is the second word of the \<^verbatim>\<open>Authorization\<close> header;
  \<open>getUser\<close> is the identity provider (\<open>None\<close> when it reports an error or no user).
  A missing or empty token and an empty user id are falsy.
\<close>

definition verifyAuth :: "(string \<Rightarrow> string option) \<Rightarrow> string option \<Rightarrow> auth" where
  "verifyAuth getUser header =
     (case header of
        None \<Rightarrow> AuthError ''No authorization token provided''
      | Some h \<Rightarrow>
          (case split_on CHR '' '' h of
             _ # accessToken # _ \<Rightarrow>
               (if accessToken = [] then AuthError ''No authorization token provided''
                else (case getUser accessToken of
                        None \<Rightarrow> AuthError ''Invalid or expired token''
                      | Some uid \<Rightarrow>
                          (if uid = [] then AuthError ''Invalid or expired token''
                           else AuthUser uid)))
           | _ \<Rightarrow> AuthError ''No authorization token provided''))"

text \<open>\<^verbatim>\<open>authError || 'Unauthorized'\<close> with status 401.\<close>

definition unauthorized :: "string \<Rightarrow> http_error" where
  "unauthorized authError =
     HttpError 401 (if authError = [] then ''Unauthorized'' else authError)"

subsection \<open>Upload\<close>

record upload_file =
  f_name :: string
  f_type :: string
  f_size :: nat

text \<open>
  Where the \<^verbatim>\<open>try\<close> block of the upload handler can throw after authentication: a
  rejected promise of the form data, of the blob store or of a store call.
\<close>

datatype upload_throw =
  UNoThrow | UThrowFormData | UThrowUpload | UThrowSignedUrl
  | UThrowSetScore | UThrowGetIndex | UThrowSetIndex

text \<open>
  The environment of one upload: \<^verbatim>\<open>Date.now()\<close>, the later \<^verbatim>\<open>new Date()\<close>, the
  \<^verbatim>\<open>uploadError\<close> the blob store returns (its message), and
  \<^verbatim>\<open>signedUrlData?.signedUrl\<close> (\<open>None\<close> when signing returned an error, so that
  \<^verbatim>\<open>data\<close> is null).
\<close>

record upload_env =
  u_timestamp :: nat
  u_uploadedAt :: nat
  u_uploadError :: "string option"
  u_signedUrl :: "string option"
  u_throw :: upload_throw

record upload_ok =
  r_scoreId :: string
  r_url :: "string option"
  r_metadata :: score

definition allowedTypes :: "string list" where
  "allowedTypes = [''image/jpeg'', ''image/png'', ''image/jpg'', ''application/pdf'']"

definition upload_exception :: http_error where
  "upload_exception = HttpError 500 ''Internal server error during file upload''"

text \<open>\<^verbatim>\<open>x || ''\<close> on an optional string.\<close>

definition or_empty :: "string option \<Rightarrow> string" where
  "or_empty x = (case x of None \<Rightarrow> [] | Some u \<Rightarrow> u)"

definition upload ::
  "auth \<Rightarrow> upload_file option \<Rightarrow> upload_env \<Rightarrow> kv \<Rightarrow> (http_error + upload_ok) \<times> kv" where
  "upload a file env st =
     (case a of
        AuthError authError \<Rightarrow> (Inl (unauthorized authError), st)
      | AuthUser uid \<Rightarrow>
          if u_throw env = UThrowFormData then (Inl upload_exception, st)
          else (case file of
            None \<Rightarrow> (Inl (HttpError 400 ''No file provided''), st)
          | Some f \<Rightarrow>
              if f_type f \<notin> set allowedTypes then
                (Inl (HttpError 400
                   ''Invalid file type. Please upload JPG, PNG, or PDF files only.''), st)
              else
                let timestamp = u_timestamp env;
                    fileName = mkFileName uid timestamp (f_name f)
                in
                if u_throw env = UThrowUpload then (Inl upload_exception, st)
                else (case u_uploadError env of
                  Some m \<Rightarrow> (Inl (HttpError 500 (''Failed to upload file: '' @ m)), st)
                | None \<Rightarrow>
                    if u_throw env = UThrowSignedUrl then (Inl upload_exception, st)
                    else
                      let scoreId = mkScoreId uid timestamp;
                          scoreMetadata =
                            \<lparr> s_id = scoreId, s_userId = uid, s_fileName = f_name f,
                              s_filePath = fileName, s_fileType = f_type f,
                              s_fileSize = f_size f, s_uploadedAt = u_uploadedAt env,
                              s_url = or_empty (u_signedUrl env) \<rparr>
                      in
                      if u_throw env = UThrowSetScore then (Inl upload_exception, st)
                      else
                        let st1 = kv_set st scoreId (ScoreDoc scoreMetadata) in
                        if u_throw env = UThrowGetIndex then (Inl upload_exception, st1)
                        else (case get_ids st1 (userScoresKey uid) of
                          None \<Rightarrow> (Inl upload_exception, st1)
                        | Some existingScores \<Rightarrow>
                            if u_throw env = UThrowSetIndex then (Inl upload_exception, st1)
                            else
                              (Inr \<lparr> r_scoreId = scoreId, r_url = u_signedUrl env,
                                     r_metadata = scoreMetadata \<rparr>,
                               kv_set st1 (userScoresKey uid)
                                 (IdList (existingScores @ [scoreId])))))))"

subsection \<open>Convert and its completion callback\<close>

text \<open>
  The JSON body \<^verbatim>\<open>{ instruments, satbConfig, tempo }\<close>; \<open>None\<close> is an absent (or null)
  field. \<^verbatim>\<open>tempo\<close> is a \<^verbatim>\<open>number\<close> in \<^verbatim>\<open>types.ts\<close> and is taken as an integer here.
\<close>

record convert_body =
  b_instruments :: "string list option"
  b_satbConfig :: "satb_config option"
  b_tempo :: "int option"

datatype convert_throw = CNoThrow | CThrowGet | CThrowSet

record convert_env =
  cv_now :: nat
  cv_createdAt :: nat
  cv_throw :: convert_throw

text \<open>What the timer callback closes over: \<^verbatim>\<open>user.id\<close>, \<^verbatim>\<open>conversionId\<close>, \<^verbatim>\<open>conversionData\<close>.\<close>

record job =
  j_userId :: string
  j_conversionId :: string
  j_conversionData :: conversion

record convert_ok =
  r_conversionId :: string
  r_status :: status
  r_message :: string

definition convert_exception :: http_error where
  "convert_exception = HttpError 500 ''Internal server error during conversion''"

text \<open>
  \<^verbatim>\<open>instruments || []\<close>, \<^verbatim>\<open>satbConfig || {}\<close>, \<^verbatim>\<open>tempo || 120\<close>: an array and an
  object are truthy even when empty; the number 0 is falsy.
\<close>

definition tempo_or_default :: "int option \<Rightarrow> int" where
  "tempo_or_default t = (case t of None \<Rightarrow> 120 | Some n \<Rightarrow> if n = 0 then 120 else n)"

definition list_or_default :: "'a list option \<Rightarrow> 'a list" where
  "list_or_default x = (case x of None \<Rightarrow> [] | Some xs \<Rightarrow> xs)"

text \<open>
  The convert handler. \<open>body = None\<close> is a body for which \<^verbatim>\<open>await c.req.json()\<close> or
  the destructuring throws. The third component is the callback handed to
  \<^verbatim>\<open>setTimeout\<close>.
\<close>

definition convert ::
  "auth \<Rightarrow> string \<Rightarrow> convert_body option \<Rightarrow> convert_env \<Rightarrow> kv
     \<Rightarrow> (http_error + convert_ok) \<times> kv \<times> job option" where
  "convert a scoreId body env st =
     (case a of
        AuthError authError \<Rightarrow> (Inl (unauthorized authError), st, None)
      | AuthUser uid \<Rightarrow>
          (case body of
             None \<Rightarrow> (Inl convert_exception, st, None)
           | Some b \<Rightarrow>
               if cv_throw env = CThrowGet then (Inl convert_exception, st, None)
               else
                 let scoreMetadata = kv_get st scoreId in
                 if scoreMetadata = None \<or> Option.bind scoreMetadata doc_userId \<noteq> Some uid then
                   (Inl (HttpError 404 ''Score not found or access denied''), st, None)
                 else
                   let conversionId = mkConversionId uid (cv_now env);
                       conversionData =
                         \<lparr> c_id = conversionId, c_scoreId = scoreId, c_userId = uid,
                           c_instruments = list_or_default (b_instruments b),
                           c_satbConfig = list_or_default (b_satbConfig b),
                           c_tempo = tempo_or_default (b_tempo b),
                           c_status = Processing, c_createdAt = cv_createdAt env,
                           c_completedAt = None, c_audioUrl = None, c_midiUrl = None,
                           c_audioPath = None, c_midiPath = None, c_error = None \<rparr>
                   in
                   if cv_throw env = CThrowSet then (Inl convert_exception, st, None)
                   else
                     (Inr \<lparr> r_conversionId = conversionId, r_status = Processing,
                            r_message =
                              ''Conversion started. Check status using the conversion ID.'' \<rparr>,
                      kv_set st conversionId (ConvDoc conversionData),
                      Some \<lparr> j_userId = uid, j_conversionId = conversionId,
                             j_conversionData = conversionData \<rparr>)))"

text \<open>
  Where the \<^verbatim>\<open>try\<close> block of the callback can throw, and whether the \<^verbatim>\<open>kv.set\<close> of
  its \<^verbatim>\<open>catch\<close> block throws as well. \<open>t_audioUrl\<close> and \<open>t_midiUrl\<close> are
  \<^verbatim>\<open>audioUrl?.signedUrl\<close> and \<^verbatim>\<open>midiUrl?.signedUrl\<close>.
\<close>

datatype completion_throw =
  TNoThrow | TThrowSignedUrl | TThrowSetRecord | TThrowGetIndex | TThrowSetIndex

record completion_env =
  t_audioUrl :: "string option"
  t_midiUrl :: "string option"
  t_completedAt :: nat
  t_throw :: completion_throw
  t_catchThrows :: bool

text \<open>
  The \<^verbatim>\<open>try\<close> block: \<open>Inr\<close> the store when it ran to its end, \<open>Inl\<close> the store at
  the moment it threw.
\<close>

definition completion_try :: "completion_env \<Rightarrow> job \<Rightarrow> kv \<Rightarrow> kv + kv" where
  "completion_try env j st =
     (let audioPath = j_userId j @ ''/'' @ j_conversionId j @ ''.mp3'';
          midiPath = j_userId j @ ''/'' @ j_conversionId j @ ''.mid''
      in
      if t_throw env = TThrowSignedUrl then Inl st
      else
        let updatedConversion = (j_conversionData j)
              \<lparr> c_status := Completed, c_audioUrl := t_audioUrl env,
                c_midiUrl := t_midiUrl env, c_audioPath := Some audioPath,
                c_midiPath := Some midiPath, c_completedAt := Some (t_completedAt env) \<rparr>
        in
        if t_throw env = TThrowSetRecord then Inl st
        else
          let st1 = kv_set st (j_conversionId j) (ConvDoc updatedConversion);
              userConversionsKey = userConversionsKey (j_userId j)
          in
          if t_throw env = TThrowGetIndex then Inl st1
          else (case get_ids st1 userConversionsKey of
            None \<Rightarrow> Inl st1
          | Some existingConversions \<Rightarrow>
              if t_throw env = TThrowSetIndex then Inl st1
              else Inr (kv_set st1 userConversionsKey
                          (IdList (existingConversions @ [j_conversionId j])))))"

definition completion :: "completion_env \<Rightarrow> job \<Rightarrow> kv \<Rightarrow> kv" where
  "completion env j st =
     (case completion_try env j st of
        Inr st' \<Rightarrow> st'
      | Inl st' \<Rightarrow>
          if t_catchThrows env then st'
          else kv_set st' (j_conversionId j)
                 (ConvDoc ((j_conversionData j)
                    \<lparr> c_status := Failed,
                      c_error := Some ''Conversion processing failed'' \<rparr>)))"

subsection \<open>Status read\<close>

text \<open>\<open>throws\<close>: the \<^verbatim>\<open>kv.get\<close> of the handler throws.\<close>

definition get_conversion :: "auth \<Rightarrow> string \<Rightarrow> bool \<Rightarrow> kv \<Rightarrow> http_error + doc" where
  "get_conversion a conversionId throws st =
     (case a of
        AuthError authError \<Rightarrow> Inl (unauthorized authError)
      | AuthUser uid \<Rightarrow>
          if throws then Inl (HttpError 500 ''Internal server error fetching conversion'')
          else (case kv_get st conversionId of
            None \<Rightarrow> Inl (HttpError 404 ''Conversion not found or access denied'')
          | Some conversionData \<Rightarrow>
              if doc_userId conversionData \<noteq> Some uid then
                Inl (HttpError 404 ''Conversion not found or access denied'')
              else Inr conversionData))"

subsection \<open>Library listing\<close>

text \<open>
  A property key: \<^verbatim>\<open>acc[conv.scoreId]\<close> and \<^verbatim>\<open>conversionsByScore[score.id]\<close> turn
  \<^verbatim>\<open>undefined\<close> into the key \<^verbatim>\<open>"undefined"\<close>.
\<close>

definition js_key :: "string option \<Rightarrow> string" where
  "js_key k = (case k of None \<Rightarrow> ''undefined'' | Some s \<Rightarrow> s)"

text \<open>
  \<^verbatim>\<open>acc\<close> and \<^verbatim>\<open>conversionsByScore\<close> are plain objects (\<^verbatim>\<open>{}\<close>): a property read
  finds an own property, or else a property of \<^verbatim>\<open>Object.prototype\<close>. These are the
  property names of \<^verbatim>\<open>Object.prototype\<close> in ECMAScript (with its Annex B); each holds a
  function, and \<^verbatim>\<open>__proto__\<close> reads as \<^verbatim>\<open>Object.prototype\<close> itself: a truthy value
  without a \<^verbatim>\<open>push\<close> method.
\<close>

definition object_prototype_keys :: "string list" where
  "object_prototype_keys =
     [''constructor'', ''hasOwnProperty'', ''isPrototypeOf'', ''propertyIsEnumerable'',
      ''toLocaleString'', ''toString'', ''valueOf'', ''__proto__'', ''__defineGetter__'',
      ''__defineSetter__'', ''__lookupGetter__'', ''__lookupSetter__'']"

datatype 'a property = Undefined | Own 'a | Inherited

definition js_lookup :: "(string \<rightharpoonup> 'a) \<Rightarrow> string \<Rightarrow> 'a property" where
  "js_lookup obj k =
     (case obj k of
        Some v \<Rightarrow> Own v
      | None \<Rightarrow> if k \<in> set object_prototype_keys then Inherited else Undefined)"

text \<open>
  The callback of \<^verbatim>\<open>conversions.reduce\<close>:
  \<^verbatim>\<open>if (!acc[conv.scoreId]) acc[conv.scoreId] = []; acc[conv.scoreId].push(conv)\<close>.
  Only \<^verbatim>\<open>undefined\<close> is falsy here; on an inherited value \<^verbatim>\<open>push\<close> is not a function
  and the call throws a \<^verbatim>\<open>TypeError\<close>: \<open>None\<close>.
\<close>

definition group_step ::
  "(string \<rightharpoonup> doc list) \<Rightarrow> doc \<Rightarrow> (string \<rightharpoonup> doc list) option" where
  "group_step acc conv =
     (let k = js_key (doc_scoreId conv);
          acc1 = (if js_lookup acc k = Undefined then acc(k \<mapsto> []) else acc)
      in (case js_lookup acc1 k of
            Own cs \<Rightarrow> Some (acc1(k \<mapsto> cs @ [conv]))
          | Inherited \<Rightarrow> None
          | Undefined \<Rightarrow> None))"

text \<open>\<^verbatim>\<open>conversions.reduce(..., {})\<close>: the loop stops at the first throw.\<close>

fun reduce_group ::
  "(string \<rightharpoonup> doc list) \<Rightarrow> doc list \<Rightarrow> (string \<rightharpoonup> doc list) option" where
  "reduce_group acc [] = Some acc"
| "reduce_group acc (conv # rest) =
     (case group_step acc conv of
        None \<Rightarrow> None
      | Some acc' \<Rightarrow> reduce_group acc' rest)"

definition conversionsByScore :: "doc list \<Rightarrow> (string \<rightharpoonup> doc list) option" where
  "conversionsByScore conversions = reduce_group Map.empty conversions"

text \<open>
  The \<^verbatim>\<open>conversions\<close> property of a library entry,
  \<^verbatim>\<open>conversionsByScore[score.id] || []\<close>: the array of the score's conversions, or,
  when the id of the score is a property name of \<^verbatim>\<open>Object.prototype\<close>, the inherited
  value of that name.
\<close>

datatype attached = Conversions "doc list" | InheritedValue string

definition conversions_of :: "(string \<rightharpoonup> doc list) \<Rightarrow> doc \<Rightarrow> attached" where
  "conversions_of byScore score =
     (case js_lookup byScore (js_key (doc_id score)) of
        Own cs \<Rightarrow> Conversions cs
      | Undefined \<Rightarrow> Conversions []
      | Inherited \<Rightarrow> InheritedValue (js_key (doc_id score)))"

text \<open>
  The comparator of \<^verbatim>\<open>library.sort\<close>:
  \<^verbatim>\<open>new Date(b.uploadedAt).getTime() - new Date(a.uploadedAt).getTime()\<close>. Without an
  \<^verbatim>\<open>uploadedAt\<close> the time is \<^verbatim>\<open>NaN\<close>, which \<^verbatim>\<open>sort\<close> reads as 0.
\<close>

definition compare_uploaded :: "doc \<times> 'a \<Rightarrow> doc \<times> 'a \<Rightarrow> int" where
  "compare_uploaded a b =
     (case (doc_uploadedAt (fst b), doc_uploadedAt (fst a)) of
        (Some tb, Some ta) \<Rightarrow> int tb - int ta
      | _ \<Rightarrow> 0)"

text \<open>
  \<^verbatim>\<open>Array.prototype.sort\<close> is stable: an element stays before the later elements the
  comparator does not put first. For a comparator that orders the elements totally, every
  stable sort returns the array that this insertion sort returns.
\<close>

fun insert_sorted :: "('a \<Rightarrow> 'a \<Rightarrow> int) \<Rightarrow> 'a \<Rightarrow> 'a list \<Rightarrow> 'a list" where
  "insert_sorted cmp x [] = [x]"
| "insert_sorted cmp x (y # ys) =
     (if cmp x y \<le> 0 then x # y # ys else y # insert_sorted cmp x ys)"

definition js_sort :: "('a \<Rightarrow> 'a \<Rightarrow> int) \<Rightarrow> 'a list \<Rightarrow> 'a list" where
  "js_sort cmp xs = foldr (insert_sorted cmp) xs []"

text \<open>
  \<^verbatim>\<open>library.sort(...)\<close>. When every entry has an \<^verbatim>\<open>uploadedAt\<close>, the comparator orders
  the entries by it and the result is that of the stable sort. When an entry has none, the
  comparator yields \<^verbatim>\<open>NaN\<close> and is not a consistent comparator; ECMAScript leaves the
  order to the implementation, and the order that the runtime gives the array is the
  argument \<open>runtime_order\<close>.
\<close>

definition sort_library ::
  "((doc \<times> 'a) list \<Rightarrow> (doc \<times> 'a) list) \<Rightarrow> (doc \<times> 'a) list \<Rightarrow> (doc \<times> 'a) list" where
  "sort_library runtime_order lib =
     (if list_all (\<lambda>e. doc_uploadedAt (fst e) \<noteq> None) lib
      then js_sort compare_uploaded lib
      else runtime_order lib)"

text \<open>
  The library handler; \<open>throws\<close>: one of its four store reads throws. An entry
  \<^verbatim>\<open>{...score, conversions}\<close> is the pair of the document and its \<^verbatim>\<open>conversions\<close>
  property.
\<close>

definition library ::
  "auth \<Rightarrow> ((doc \<times> attached) list \<Rightarrow> (doc \<times> attached) list) \<Rightarrow> bool \<Rightarrow> kv
     \<Rightarrow> http_error + (doc \<times> attached) list" where
  "library a runtime_order throws st =
     (case a of
        AuthError authError \<Rightarrow> Inl (unauthorized authError)
      | AuthUser uid \<Rightarrow>
          if throws then Inl (HttpError 500 ''Internal server error fetching library'')
          else (case (get_ids st (userScoresKey uid), get_ids st (userConversionsKey uid)) of
            (Some scoreIds, Some conversionIds) \<Rightarrow>
              let scores = kv_mget st scoreIds;
                  conversions = kv_mget st conversionIds
              in (case conversionsByScore conversions of
                    None \<Rightarrow> Inl (HttpError 500 ''Internal server error fetching library'')
                  | Some byScore \<Rightarrow>
                      let lib = map (\<lambda>score. (score, conversions_of byScore score)) scores
                      in Inr (sort_library runtime_order lib))
          | _ \<Rightarrow> Inl (HttpError 500 ''Internal server error fetching library'')))"

subsection \<open>Delete score\<close>

text \<open>
  Where the \<^verbatim>\<open>try\<close> block of the delete handler can throw: at the read of the
  score, later before the first store write (the removal of the score blob, the reads of
  the index and of the conversions), in the iteration of the loop with the
  given index (a blob removal or the \<^verbatim>\<open>kv.del\<close>), or at one of the later store
  calls. The blob store returns its errors, which the handler does not read; the blobs
  themselves are not part of this model.
\<close>

datatype delete_throw =
  DNoThrow | DThrowGetScore | DThrowBeforeLoop | DThrowInLoop nat | DThrowSetConvIndex
  | DThrowDelScore | DThrowGetScoreIndex | DThrowSetScoreIndex

text \<open>
  The loop \<^verbatim>\<open>for (const conversion of scoreConversions)\<close>; \<open>k\<close> counts down to the
  iteration that throws.
\<close>

fun delete_conversions :: "nat option \<Rightarrow> doc list \<Rightarrow> kv \<Rightarrow> kv + kv" where
  "delete_conversions k [] st = Inr st"
| "delete_conversions k (conversion # rest) st =
     (if k = Some 0 then Inl st
      else delete_conversions (map_option (\<lambda>n. n - 1) k) rest
             (case doc_id conversion of None \<Rightarrow> st | Some i \<Rightarrow> kv_del st i))"

definition delete_exception :: http_error where
  "delete_exception = HttpError 500 ''Internal server error during deletion''"

definition delete_score ::
  "auth \<Rightarrow> string \<Rightarrow> delete_throw \<Rightarrow> kv \<Rightarrow> (http_error + string) \<times> kv" where
  "delete_score a scoreId thr st =
     (case a of
        AuthError authError \<Rightarrow> (Inl (unauthorized authError), st)
      | AuthUser uid \<Rightarrow>
          if thr = DThrowGetScore then (Inl delete_exception, st)
          else
          let scoreMetadata = kv_get st scoreId in
          if scoreMetadata = None \<or> Option.bind scoreMetadata doc_userId \<noteq> Some uid then
            (Inl (HttpError 404 ''Score not found or access denied''), st)
          else if thr = DThrowBeforeLoop then (Inl delete_exception, st)
          else (case get_ids st (userConversionsKey uid) of
            None \<Rightarrow> (Inl delete_exception, st)
          | Some conversionIds \<Rightarrow>
              let conversions = kv_mget st conversionIds;
                  scoreConversions =
                    filter (\<lambda>c. doc_scoreId c = Some scoreId) conversions
              in
              (case delete_conversions
                      (case thr of DThrowInLoop n \<Rightarrow> Some n | _ \<Rightarrow> None)
                      scoreConversions st of
                 Inl st1 \<Rightarrow> (Inl delete_exception, st1)
               | Inr st1 \<Rightarrow>
                   let updatedConversions =
                         filter (\<lambda>i. find (\<lambda>c. doc_id c = Some i) scoreConversions = None)
                           conversionIds
                   in
                   if thr = DThrowSetConvIndex then (Inl delete_exception, st1)
                   else
                     let st2 = kv_set st1 (userConversionsKey uid) (IdList updatedConversions) in
                     if thr = DThrowDelScore then (Inl delete_exception, st2)
                     else
                       let st3 = kv_del st2 scoreId in
                       if thr = DThrowGetScoreIndex then (Inl delete_exception, st3)
                       else (case get_ids st3 (userScoresKey uid) of
                         None \<Rightarrow> (Inl delete_exception, st3)
                       | Some scoreIds \<Rightarrow>
                           if thr = DThrowSetScoreIndex then (Inl delete_exception, st3)
                           else
                             (Inr ''Score and all conversions deleted successfully'',
                              kv_set st3 (userScoresKey uid)
                                (IdList (filter (\<lambda>i. i \<noteq> scoreId) scoreIds)))))))"

subsection \<open>Example inputs\<close>

text \<open>
  A user \<^verbatim>\<open>u1\<close> uploads a PNG at millisecond 7 and converts it at millisecond 9; the
  stores and records that this produces, and the environments of the calls.
\<close>

definition ex_png :: upload_file where
  "ex_png = \<lparr> f_name = ''sonata.png'', f_type = ''image/png'', f_size = 2097152 \<rparr>"

definition ex_jpg :: upload_file where
  "ex_jpg = \<lparr> f_name = ''scan.jpg'', f_type = ''image/jpg'', f_size = 1000 \<rparr>"

definition ex_txt :: upload_file where
  "ex_txt = \<lparr> f_name = ''notes.txt'', f_type = ''text/plain'', f_size = 10 \<rparr>"

definition ex_upload_env :: upload_env where
  "ex_upload_env = \<lparr> u_timestamp = 7, u_uploadedAt = 7, u_uploadError = None,
     u_signedUrl = Some ''https://blob/u1/7.png'', u_throw = UNoThrow \<rparr>"

definition ex_score :: score where
  "ex_score = \<lparr> s_id = ''score_u1_7'', s_userId = ''u1'', s_fileName = ''sonata.png'',
     s_filePath = ''u1/7.png'', s_fileType = ''image/png'', s_fileSize = 2097152,
     s_uploadedAt = 7, s_url = ''https://blob/u1/7.png'' \<rparr>"

definition ex_store :: kv where
  "ex_store = [''score_u1_7'' \<mapsto> ScoreDoc ex_score,
               ''user_scores_u1'' \<mapsto> IdList [''score_u1_7'']]"

definition ex_body :: convert_body where
  "ex_body = \<lparr> b_instruments = Some [''violin'', ''cello''], b_satbConfig = None,
     b_tempo = Some 90 \<rparr>"

definition ex_convert_env :: convert_env where
  "ex_convert_env = \<lparr> cv_now = 9, cv_createdAt = 9, cv_throw = CNoThrow \<rparr>"

definition ex_conversion :: conversion where
  "ex_conversion = \<lparr> c_id = ''conversion_u1_9'', c_scoreId = ''score_u1_7'',
     c_userId = ''u1'', c_instruments = [''violin'', ''cello''], c_satbConfig = [],
     c_tempo = 90, c_status = Processing, c_createdAt = 9, c_completedAt = None,
     c_audioUrl = None, c_midiUrl = None, c_audioPath = None, c_midiPath = None,
     c_error = None \<rparr>"

definition ex_job :: job where
  "ex_job = \<lparr> j_userId = ''u1'', j_conversionId = ''conversion_u1_9'',
     j_conversionData = ex_conversion \<rparr>"

definition ex_completion_env :: completion_env where
  "ex_completion_env = \<lparr> t_audioUrl = Some ''https://blob/a'', t_midiUrl = Some ''https://blob/m'',
     t_completedAt = 11, t_throw = TNoThrow, t_catchThrows = False \<rparr>"

definition ex_completed :: conversion where
  "ex_completed = ex_conversion \<lparr> c_status := Completed,
     c_audioUrl := Some ''https://blob/a'', c_midiUrl := Some ''https://blob/m'',
     c_audioPath := Some ''u1/conversion_u1_9.mp3'',
     c_midiPath := Some ''u1/conversion_u1_9.mid'', c_completedAt := Some 11 \<rparr>"

text \<open>
  A library of two scores, uploaded at the milliseconds 7 and 12, with one completed
  conversion of the first; the Score index also names a score that is not in the store.
\<close>

definition ex_score2 :: score where
  "ex_score2 = \<lparr> s_id = ''score_u1_12'', s_userId = ''u1'', s_fileName = ''etude.pdf'',
     s_filePath = ''u1/12.pdf'', s_fileType = ''application/pdf'', s_fileSize = 4096,
     s_uploadedAt = 12, s_url = ''https://blob/u1/12.pdf'' \<rparr>"

definition ex_library_store :: kv where
  "ex_library_store =
     [''score_u1_7'' \<mapsto> ScoreDoc ex_score, ''score_u1_12'' \<mapsto> ScoreDoc ex_score2,
      ''conversion_u1_9'' \<mapsto> ConvDoc ex_completed,
      ''user_scores_u1'' \<mapsto> IdList [''score_u1_7'', ''score_u1_10'', ''score_u1_12''],
      ''user_conversions_u1'' \<mapsto> IdList [''conversion_u1_9'']]"

section \<open>Properties\<close>

subsection \<open>Keys\<close>

lemma scoreId_not_index:
  "mkScoreId uid t \<noteq> userScoresKey uid'" "mkScoreId uid t \<noteq> userConversionsKey uid'"
  by (simp_all add: mkScoreId_def userScoresKey_def userConversionsKey_def)

lemma conversionId_not_index:
  "mkConversionId uid t \<noteq> userScoresKey uid'"
  "mkConversionId uid t \<noteq> userConversionsKey uid'"
  by (simp_all add: mkConversionId_def userScoresKey_def userConversionsKey_def)

lemma get_ids_kv_set_other:
  "k \<noteq> k' \<Longrightarrow> get_ids (kv_set st k v) k' = get_ids st k'"
  by (simp add: kv_set_def kv_get_def)












subsection \<open>The example run\<close>

lemmas ex_defs = ex_png_def ex_jpg_def ex_txt_def ex_upload_env_def ex_score_def ex_store_def
  ex_body_def ex_convert_env_def ex_conversion_def ex_job_def ex_completion_env_def
  ex_completed_def ex_score2_def ex_library_store_def

lemma dec_small: "dec 7 = ''7''" "dec 8 = ''8''" "dec 9 = ''9''"
  by (simp_all add: dec.simps digit_def numeral_nat)

lemma upload_example:
  "upload (AuthUser ''u1'') (Some ex_png) ex_upload_env Map.empty =
     (Inr \<lparr> r_scoreId = ''score_u1_7'', r_url = Some ''https://blob/u1/7.png'',
            r_metadata = ex_score \<rparr>, ex_store)"
  by (simp add: Let_def upload_def ex_defs allowedTypes_def mkScoreId_def mkFileName_def
      dec_small fileExt_def kv_set_def kv_get_def userScoresKey_def or_empty_def)

lemma convert_example:
  "convert (AuthUser ''u1'') ''score_u1_7'' (Some ex_body) ex_convert_env ex_store =
     (Inr \<lparr> r_conversionId = ''conversion_u1_9'', r_status = Processing,
            r_message = ''Conversion started. Check status using the conversion ID.'' \<rparr>,
      ex_store(''conversion_u1_9'' \<mapsto> ConvDoc ex_conversion), Some ex_job)"
  by (simp add: Let_def convert_def ex_defs mkConversionId_def dec_small kv_set_def kv_get_def
      list_or_default_def tempo_or_default_def)

lemma completion_example:
  "completion ex_completion_env ex_job
       (ex_store(''conversion_u1_9'' \<mapsto> ConvDoc ex_conversion)) =
     (ex_store(''conversion_u1_9'' \<mapsto> ConvDoc ex_completed))
       (''user_conversions_u1'' \<mapsto> IdList [''conversion_u1_9''])"
  by (simp add: Let_def completion_def completion_try_def ex_defs kv_set_def kv_get_def
      userConversionsKey_def)

subsection \<open>Upload\<close>

text \<open>
  Claim C5, as stated, restricts the accepted content types to \<^verbatim>\<open>image/jpeg\<close>,
  \<^verbatim>\<open>image/png\<close> and \<^verbatim>\<open>application/pdf\<close>. The list \<^verbatim>\<open>allowedTypes\<close> of the handler
  has a fourth entry: an upload declared as \<^verbatim>\<open>image/jpg\<close> is accepted, stored and indexed.
\<close>

theorem upload_accepts_image_jpg:
  "f_type ex_jpg \<notin> {''image/jpeg'', ''image/png'', ''application/pdf''}
   \<and> fst (upload (AuthUser ''u1'') (Some ex_jpg) ex_upload_env Map.empty) =
       Inr \<lparr> r_scoreId = ''score_u1_7'', r_url = Some ''https://blob/u1/7.png'',
             r_metadata = \<lparr> s_id = ''score_u1_7'', s_userId = ''u1'',
               s_fileName = ''scan.jpg'', s_filePath = ''u1/7.jpg'',
               s_fileType = ''image/jpg'', s_fileSize = 1000, s_uploadedAt = 7,
               s_url = ''https://blob/u1/7.png'' \<rparr> \<rparr>
   \<and> snd (upload (AuthUser ''u1'') (Some ex_jpg) ex_upload_env Map.empty) ''user_scores_u1'' =
       Some (IdList [''score_u1_7''])"
  by (simp add: Let_def upload_def ex_defs allowedTypes_def mkScoreId_def mkFileName_def
      dec_small fileExt_def kv_set_def kv_get_def userScoresKey_def or_empty_def)

text \<open>
  Claim C5, amended. For an authenticated upload whose form data was read:
  \<^item> a file whose declared content type lies outside \<^verbatim>\<open>image/jpeg\<close>, \<^verbatim>\<open>image/png\<close>,
    \<^verbatim>\<open>image/jpg\<close>, \<^verbatim>\<open>application/pdf\<close> is rejected with status 400 and the message
    naming the allowed types, and the store is unchanged;
  \<^item> no upload succeeds without a file of one of these four types;
  \<^item> on a validation failure or a blob-store error (returned or thrown) the upload fails
    and the store is unchanged: no Score record, no index mutation;
  \<^item> the user's Score index changes only when the Score record has been persisted;
  \<^item> the store changes only when the blob upload succeeded.
\<close>

theorem upload_validation_and_write_order:
  "(let res = upload (AuthUser uid) file env st in
     (\<forall>f. file = Some f \<and> u_throw env \<noteq> UThrowFormData
          \<and> f_type f \<notin> {''image/jpeg'', ''image/png'', ''image/jpg'', ''application/pdf''}
        \<longrightarrow> res = (Inl (HttpError 400
               ''Invalid file type. Please upload JPG, PNG, or PDF files only.''), st))
   \<and> (\<forall>ok. fst res = Inr ok \<longrightarrow>
         (\<exists>f. file = Some f
            \<and> f_type f \<in> {''image/jpeg'', ''image/png'', ''image/jpg'', ''application/pdf''}))
   \<and> ((\<exists>f. file = Some f
            \<and> f_type f \<notin> {''image/jpeg'', ''image/png'', ''image/jpg'', ''application/pdf''})
        \<or> u_uploadError env \<noteq> None \<or> u_throw env = UThrowUpload
        \<longrightarrow> isl (fst res) \<and> snd res = st)
   \<and> (snd res (userScoresKey uid) \<noteq> st (userScoresKey uid) \<longrightarrow>
        (\<exists>m. snd res (mkScoreId uid (u_timestamp env)) = Some (ScoreDoc m)))
   \<and> (snd res \<noteq> st \<longrightarrow> u_uploadError env = None \<and> u_throw env \<noteq> UThrowUpload))"
  unfolding Let_def
proof (intro conjI)
  show "\<forall>f. file = Some f \<and> u_throw env \<noteq> UThrowFormData
          \<and> f_type f \<notin> {''image/jpeg'', ''image/png'', ''image/jpg'', ''application/pdf''}
        \<longrightarrow> upload (AuthUser uid) file env st = (Inl (HttpError 400
               ''Invalid file type. Please upload JPG, PNG, or PDF files only.''), st)"
    by (simp add: upload_def allowedTypes_def)
  show "\<forall>ok. fst (upload (AuthUser uid) file env st) = Inr ok \<longrightarrow>
         (\<exists>f. file = Some f
            \<and> f_type f \<in> {''image/jpeg'', ''image/png'', ''image/jpg'', ''application/pdf''})"
    by (auto simp: upload_def Let_def allowedTypes_def split: option.splits if_splits)
  show "(\<exists>f. file = Some f
            \<and> f_type f \<notin> {''image/jpeg'', ''image/png'', ''image/jpg'', ''application/pdf''})
        \<or> u_uploadError env \<noteq> None \<or> u_throw env = UThrowUpload
        \<longrightarrow> isl (fst (upload (AuthUser uid) file env st))
          \<and> snd (upload (AuthUser uid) file env st) = st"
    by (auto simp: upload_def Let_def allowedTypes_def split: option.splits if_splits)
  show "snd (upload (AuthUser uid) file env st) (userScoresKey uid) \<noteq> st (userScoresKey uid)
        \<longrightarrow> (\<exists>m. snd (upload (AuthUser uid) file env st) (mkScoreId uid (u_timestamp env))
                = Some (ScoreDoc m))"
    using scoreId_not_index(1) [of uid "u_timestamp env" uid]
    by (auto simp: upload_def Let_def kv_set_def split: option.splits if_splits)
  show "snd (upload (AuthUser uid) file env st) \<noteq> st
        \<longrightarrow> u_uploadError env = None \<and> u_throw env \<noteq> UThrowUpload"
    by (auto simp: upload_def Let_def split: option.splits if_splits)
qed

text \<open>
  The theorem at a text file, at a PNG whose blob upload fails, and at the successful
  upload of the example.
\<close>

theorem upload_validation_and_write_order_witness:
  "upload (AuthUser ''u1'') (Some ex_txt) ex_upload_env ex_store =
     (Inl (HttpError 400 ''Invalid file type. Please upload JPG, PNG, or PDF files only.''),
      ex_store)
   \<and> isl (fst (upload (AuthUser ''u1'') (Some ex_png)
                 (ex_upload_env \<lparr> u_uploadError := Some ''quota'' \<rparr>) ex_store))
   \<and> snd (upload (AuthUser ''u1'') (Some ex_png)
            (ex_upload_env \<lparr> u_uploadError := Some ''quota'' \<rparr>) ex_store) = ex_store
   \<and> (\<exists>m. snd (upload (AuthUser ''u1'') (Some ex_png) ex_upload_env Map.empty)
             (mkScoreId ''u1'' (u_timestamp ex_upload_env)) = Some (ScoreDoc m))"
proof -
  have a: "f_type ex_txt \<notin> {''image/jpeg'', ''image/png'', ''image/jpg'', ''application/pdf''}"
    "u_throw ex_upload_env \<noteq> UThrowFormData"
    "u_uploadError (ex_upload_env \<lparr> u_uploadError := Some ''quota'' \<rparr>) \<noteq> None"
    by (simp_all add: ex_defs)
  have b: "snd (upload (AuthUser ''u1'') (Some ex_png) ex_upload_env Map.empty)
             (userScoresKey ''u1'') \<noteq> Map.empty (userScoresKey ''u1'')"
    by (simp add: upload_example ex_store_def userScoresKey_def)
  from a(1,2)
    upload_validation_and_write_order [of "''u1''" "Some ex_txt" ex_upload_env ex_store]
  have 1: "upload (AuthUser ''u1'') (Some ex_txt) ex_upload_env ex_store =
     (Inl (HttpError 400 ''Invalid file type. Please upload JPG, PNG, or PDF files only.''),
      ex_store)"
    unfolding Let_def by blast
  from a(3)
    upload_validation_and_write_order [of "''u1''" "Some ex_png"
      "ex_upload_env \<lparr> u_uploadError := Some ''quota'' \<rparr>" ex_store]
  have 2: "isl (fst (upload (AuthUser ''u1'') (Some ex_png)
                 (ex_upload_env \<lparr> u_uploadError := Some ''quota'' \<rparr>) ex_store))
   \<and> snd (upload (AuthUser ''u1'') (Some ex_png)
            (ex_upload_env \<lparr> u_uploadError := Some ''quota'' \<rparr>) ex_store) = ex_store"
    unfolding Let_def by blast
  from b
    upload_validation_and_write_order [of "''u1''" "Some ex_png" ex_upload_env Map.empty]
  have 3: "\<exists>m. snd (upload (AuthUser ''u1'') (Some ex_png) ex_upload_env Map.empty)
             (mkScoreId ''u1'' (u_timestamp ex_upload_env)) = Some (ScoreDoc m)"
    unfolding Let_def by blast
  from 1 2 3 show ?thesis by blast
qed

text \<open>
  Claim C10, as stated, lets the upload succeed whenever the signed URL cannot be issued
  after a successful blob upload. The \<^verbatim>\<open>createSignedUrl\<close> call stands inside the
  \<^verbatim>\<open>try\<close> block of the handler: when it fails by throwing, the \<^verbatim>\<open>catch\<close> block answers
  with status 500, and neither the Score record nor the index has been written.
\<close>

theorem upload_signing_throws:
  "f_type ex_png \<in> set allowedTypes
   \<and> u_uploadError (ex_upload_env \<lparr> u_throw := UThrowSignedUrl \<rparr>) = None
   \<and> upload (AuthUser ''u1'') (Some ex_png) (ex_upload_env \<lparr> u_throw := UThrowSignedUrl \<rparr>)
        Map.empty =
       (Inl (HttpError 500 ''Internal server error during file upload''), Map.empty)"
  by (simp add: Let_def upload_def upload_exception_def ex_defs allowedTypes_def)

text \<open>
  Claim C10, amended. Let the blob upload of a file of an allowed type have succeeded, and
  let the user's Score index be absent or an array.
  \<^item> When signing fails by reporting an error (the call returns, \<^verbatim>\<open>signedUrlData\<close> is
    null) and no call throws, the upload succeeds: the response carries the score id, no
    URL and the record; the store holds the whole Score record (owner, file name, path,
    type, size, upload time) with the empty string as \<^verbatim>\<open>url\<close>; and the score id is
    appended to the user's Score index, an absent index counting as the empty array. No
    other key changes.
  \<^item> When signing fails by throwing, the upload answers with status 500 and the store is
    unchanged.
\<close>

theorem upload_signed_url_failure:
  assumes "f_type f \<in> set allowedTypes" and "u_uploadError env = None"
    and "st (userScoresKey uid) = None \<and> existing = []
         \<or> st (userScoresKey uid) = Some (IdList existing)"
  shows "(u_throw env = UNoThrow \<and> u_signedUrl env = None \<longrightarrow>
           upload (AuthUser uid) (Some f) env st =
             (Inr \<lparr> r_scoreId = mkScoreId uid (u_timestamp env), r_url = None,
                    r_metadata =
                      \<lparr> s_id = mkScoreId uid (u_timestamp env), s_userId = uid,
                        s_fileName = f_name f,
                        s_filePath = mkFileName uid (u_timestamp env) (f_name f),
                        s_fileType = f_type f, s_fileSize = f_size f,
                        s_uploadedAt = u_uploadedAt env, s_url = [] \<rparr> \<rparr>,
              st(mkScoreId uid (u_timestamp env) \<mapsto> ScoreDoc
                      \<lparr> s_id = mkScoreId uid (u_timestamp env), s_userId = uid,
                        s_fileName = f_name f,
                        s_filePath = mkFileName uid (u_timestamp env) (f_name f),
                        s_fileType = f_type f, s_fileSize = f_size f,
                        s_uploadedAt = u_uploadedAt env, s_url = [] \<rparr>,
                 userScoresKey uid \<mapsto> IdList (existing @ [mkScoreId uid (u_timestamp env)]))))
       \<and> (u_throw env = UThrowSignedUrl \<longrightarrow>
           upload (AuthUser uid) (Some f) env st =
             (Inl (HttpError 500 ''Internal server error during file upload''), st))"
proof -
  have idx: "get_ids (kv_set st (mkScoreId uid (u_timestamp env)) v) (userScoresKey uid)
               = Some existing" for v
    using assms(3) scoreId_not_index(1) [of uid "u_timestamp env" uid]
    by (auto simp: kv_set_def kv_get_def)
  have ok: "u_throw env = UNoThrow \<and> u_signedUrl env = None \<longrightarrow>
           upload (AuthUser uid) (Some f) env st =
             (Inr \<lparr> r_scoreId = mkScoreId uid (u_timestamp env), r_url = None,
                    r_metadata =
                      \<lparr> s_id = mkScoreId uid (u_timestamp env), s_userId = uid,
                        s_fileName = f_name f,
                        s_filePath = mkFileName uid (u_timestamp env) (f_name f),
                        s_fileType = f_type f, s_fileSize = f_size f,
                        s_uploadedAt = u_uploadedAt env, s_url = [] \<rparr> \<rparr>,
              st(mkScoreId uid (u_timestamp env) \<mapsto> ScoreDoc
                      \<lparr> s_id = mkScoreId uid (u_timestamp env), s_userId = uid,
                        s_fileName = f_name f,
                        s_filePath = mkFileName uid (u_timestamp env) (f_name f),
                        s_fileType = f_type f, s_fileSize = f_size f,
                        s_uploadedAt = u_uploadedAt env, s_url = [] \<rparr>,
                 userScoresKey uid \<mapsto> IdList (existing @ [mkScoreId uid (u_timestamp env)])))"
    unfolding upload_def Let_def
    by (simp add: assms(1,2) idx or_empty_def del: get_ids.simps) (simp add: kv_set_def)
  have thrown: "u_throw env = UThrowSignedUrl \<longrightarrow>
           upload (AuthUser uid) (Some f) env st =
             (Inl (HttpError 500 ''Internal server error during file upload''), st)"
    by (simp add: upload_def Let_def assms(1,2) upload_exception_def)
  from ok thrown show ?thesis by (rule conjI)
qed

text \<open>
  The theorem at the first upload of a user (no index yet), at an upload beside an
  existing index, and at a signing call that throws.
\<close>

theorem upload_signed_url_failure_witness:
  "upload (AuthUser ''u1'') (Some ex_png) (ex_upload_env \<lparr> u_signedUrl := None \<rparr>) Map.empty =
     (Inr \<lparr> r_scoreId = ''score_u1_7'', r_url = None,
            r_metadata = ex_score \<lparr> s_url := [] \<rparr> \<rparr>,
      [''score_u1_7'' \<mapsto> ScoreDoc (ex_score \<lparr> s_url := [] \<rparr>),
       ''user_scores_u1'' \<mapsto> IdList [''score_u1_7'']])
   \<and> upload (AuthUser ''u1'') (Some ex_png)
       (ex_upload_env \<lparr> u_timestamp := 8, u_signedUrl := None \<rparr>) ex_store =
     (Inr \<lparr> r_scoreId = ''score_u1_8'', r_url = None,
            r_metadata = ex_score \<lparr> s_id := ''score_u1_8'', s_filePath := ''u1/8.png'',
              s_url := [] \<rparr> \<rparr>,
      ex_store(''score_u1_8'' \<mapsto> ScoreDoc (ex_score \<lparr> s_id := ''score_u1_8'',
                 s_filePath := ''u1/8.png'', s_url := [] \<rparr>),
               ''user_scores_u1'' \<mapsto> IdList [''score_u1_7'', ''score_u1_8'']))
   \<and> upload (AuthUser ''u1'') (Some ex_png) (ex_upload_env \<lparr> u_throw := UThrowSignedUrl \<rparr>)
       ex_store =
     (Inl (HttpError 500 ''Internal server error during file upload''), ex_store)"
proof -
  have t: "f_type ex_png \<in> set allowedTypes"
    by (simp add: ex_defs allowedTypes_def)
  have i1: "Map.empty (userScoresKey ''u1'') = None \<and> [] = ([] :: string list)
         \<or> Map.empty (userScoresKey ''u1'') = Some (IdList [])"
    by simp
  have i2: "ex_store (userScoresKey ''u1'') = None \<and> [''score_u1_7''] = []
         \<or> ex_store (userScoresKey ''u1'') = Some (IdList [''score_u1_7''])"
    by (simp add: ex_store_def userScoresKey_def)
  have e1: "u_uploadError (ex_upload_env \<lparr> u_signedUrl := None \<rparr>) = None"
    "u_throw (ex_upload_env \<lparr> u_signedUrl := None \<rparr>) = UNoThrow
       \<and> u_signedUrl (ex_upload_env \<lparr> u_signedUrl := None \<rparr>) = None"
    by (simp_all add: ex_defs)
  have e2: "u_uploadError (ex_upload_env \<lparr> u_timestamp := 8, u_signedUrl := None \<rparr>) = None"
    "u_throw (ex_upload_env \<lparr> u_timestamp := 8, u_signedUrl := None \<rparr>) = UNoThrow
       \<and> u_signedUrl (ex_upload_env \<lparr> u_timestamp := 8, u_signedUrl := None \<rparr>) = None"
    by (simp_all add: ex_defs)
  have e3: "u_uploadError (ex_upload_env \<lparr> u_throw := UThrowSignedUrl \<rparr>) = None"
    "u_throw (ex_upload_env \<lparr> u_throw := UThrowSignedUrl \<rparr>) = UThrowSignedUrl"
    by (simp_all add: ex_defs)
  from upload_signed_url_failure
    [where st = Map.empty and uid = "''u1''" and existing = "[]", OF t e1(1) i1] e1(2)
  have 1: "upload (AuthUser ''u1'') (Some ex_png) (ex_upload_env \<lparr> u_signedUrl := None \<rparr>)
      Map.empty =
     (Inr \<lparr> r_scoreId = ''score_u1_7'', r_url = None,
            r_metadata = ex_score \<lparr> s_url := [] \<rparr> \<rparr>,
      [''score_u1_7'' \<mapsto> ScoreDoc (ex_score \<lparr> s_url := [] \<rparr>),
       ''user_scores_u1'' \<mapsto> IdList [''score_u1_7'']])"
    by (simp add: ex_defs mkScoreId_def mkFileName_def dec_small fileExt_def userScoresKey_def)
  from upload_signed_url_failure
    [where st = ex_store and uid = "''u1''" and existing = "[''score_u1_7'']", OF t e2(1) i2]
    e2(2)
  have 2: "upload (AuthUser ''u1'') (Some ex_png)
       (ex_upload_env \<lparr> u_timestamp := 8, u_signedUrl := None \<rparr>) ex_store =
     (Inr \<lparr> r_scoreId = ''score_u1_8'', r_url = None,
            r_metadata = ex_score \<lparr> s_id := ''score_u1_8'', s_filePath := ''u1/8.png'',
              s_url := [] \<rparr> \<rparr>,
      ex_store(''score_u1_8'' \<mapsto> ScoreDoc (ex_score \<lparr> s_id := ''score_u1_8'',
                 s_filePath := ''u1/8.png'', s_url := [] \<rparr>),
               ''user_scores_u1'' \<mapsto> IdList [''score_u1_7'', ''score_u1_8'']))"
    by (simp add: ex_defs mkScoreId_def mkFileName_def dec_small fileExt_def userScoresKey_def)
  from upload_signed_url_failure
    [where st = ex_store and uid = "''u1''" and existing = "[''score_u1_7'']", OF t e3(1) i2]
    e3(2)
  have 3: "upload (AuthUser ''u1'') (Some ex_png)
       (ex_upload_env \<lparr> u_throw := UThrowSignedUrl \<rparr>) ex_store =
     (Inl (HttpError 500 ''Internal server error during file upload''), ex_store)"
    by simp
  from 1 2 3 show ?thesis by blast
qed

subsection \<open>Convert\<close>

text \<open>
  Claim C8, as stated, bounds the stored tempo by 40 and 240. The handler stores
  \<^verbatim>\<open>tempo || 120\<close> and checks no range: a request with tempo 300 on the owned score
  of the example persists a processing Conversion with tempo 300.
\<close>

theorem convert_stores_tempo_out_of_range:
  "fst (snd (convert (AuthUser ''u1'') ''score_u1_7''
               (Some (ex_body \<lparr> b_tempo := Some 300 \<rparr>)) ex_convert_env ex_store))
       ''conversion_u1_9'' =
     Some (ConvDoc (ex_conversion \<lparr> c_tempo := 300 \<rparr>))
   \<and> c_status (ex_conversion \<lparr> c_tempo := 300 \<rparr>) = Processing
   \<and> \<not> (40 \<le> c_tempo (ex_conversion \<lparr> c_tempo := 300 \<rparr>)
        \<and> c_tempo (ex_conversion \<lparr> c_tempo := 300 \<rparr>) \<le> 240)"
  by (simp add: Let_def convert_def ex_defs mkConversionId_def dec_small kv_set_def kv_get_def
      list_or_default_def tempo_or_default_def)

text \<open>
  Claim C8, amended. A Convert call on a Score that the caller owns, whose store calls do
  not throw, returns the new Conversion id with status processing, and at that moment the
  store holds under that id a Conversion with status processing, the score id and the
  caller as owner. An absent instrument list is stored as the empty list, an absent SATB
  configuration as the empty configuration, an absent tempo (or the tempo 0) as 120; a
  tempo that is present and not 0 is stored as it was sent, whatever its value.
\<close>

theorem convert_persists_processing:
  assumes "kv_get st scoreId = Some d" and "doc_userId d = Some uid"
    and "cv_throw env = CNoThrow"
  shows "\<exists>cd. convert (AuthUser uid) scoreId (Some b) env st =
           (Inr \<lparr> r_conversionId = mkConversionId uid (cv_now env), r_status = Processing,
                  r_message = ''Conversion started. Check status using the conversion ID.'' \<rparr>,
            st(mkConversionId uid (cv_now env) \<mapsto> ConvDoc cd),
            Some \<lparr> j_userId = uid, j_conversionId = mkConversionId uid (cv_now env),
                   j_conversionData = cd \<rparr>)
         \<and> c_status cd = Processing
         \<and> c_id cd = mkConversionId uid (cv_now env) \<and> c_scoreId cd = scoreId
         \<and> c_userId cd = uid
         \<and> c_instruments cd = (case b_instruments b of None \<Rightarrow> [] | Some xs \<Rightarrow> xs)
         \<and> c_satbConfig cd = (case b_satbConfig b of None \<Rightarrow> [] | Some cfg \<Rightarrow> cfg)
         \<and> c_tempo cd = (case b_tempo b of None \<Rightarrow> 120 | Some n \<Rightarrow> if n = 0 then 120 else n)"
  using assms
  by (simp add: convert_def Let_def kv_set_def list_or_default_def tempo_or_default_def)

text \<open>The theorem at a request without any configuration field: the defaults are stored.\<close>

theorem convert_persists_processing_witness:
  "kv_get ex_store ''score_u1_7'' = Some (ScoreDoc ex_score)
   \<and> doc_userId (ScoreDoc ex_score) = Some ''u1''
   \<and> (\<exists>cd. convert (AuthUser ''u1'') ''score_u1_7''
               (Some \<lparr> b_instruments = None, b_satbConfig = None, b_tempo = None \<rparr>)
               ex_convert_env ex_store =
           (Inr \<lparr> r_conversionId = ''conversion_u1_9'', r_status = Processing,
                  r_message = ''Conversion started. Check status using the conversion ID.'' \<rparr>,
            ex_store(''conversion_u1_9'' \<mapsto> ConvDoc cd),
            Some \<lparr> j_userId = ''u1'', j_conversionId = ''conversion_u1_9'',
                   j_conversionData = cd \<rparr>)
         \<and> c_status cd = Processing \<and> c_instruments cd = [] \<and> c_satbConfig cd = []
         \<and> c_tempo cd = 120)"
proof -
  have h: "kv_get ex_store ''score_u1_7'' = Some (ScoreDoc ex_score)"
    "doc_userId (ScoreDoc ex_score) = Some ''u1''" "cv_throw ex_convert_env = CNoThrow"
    by (simp_all add: ex_defs kv_get_def)
  have k: "mkConversionId ''u1'' (cv_now ex_convert_env) = ''conversion_u1_9''"
    by (simp add: mkConversionId_def ex_convert_env_def dec_small)
  from convert_persists_processing [OF h,
      of "\<lparr> b_instruments = None, b_satbConfig = None, b_tempo = None \<rparr>"] h(1,2)
  show ?thesis unfolding k by auto
qed

text \<open>
  Claim C9. The callback scheduled by a Convert call, when it completes without a throw,
  stores under the Conversion id the record that the call stored at creation with exactly
  the fields \<^verbatim>\<open>status\<close>, \<^verbatim>\<open>audioUrl\<close>, \<^verbatim>\<open>midiUrl\<close>, \<^verbatim>\<open>audioPath\<close>, \<^verbatim>\<open>midiPath\<close> and
  \<^verbatim>\<open>completedAt\<close> updated: \<^verbatim>\<open>id\<close>, \<^verbatim>\<open>scoreId\<close>, \<^verbatim>\<open>userId\<close>, \<^verbatim>\<open>instruments\<close>,
  \<^verbatim>\<open>satbConfig\<close>, \<^verbatim>\<open>tempo\<close> and \<^verbatim>\<open>createdAt\<close> are those of creation, whatever the
  store holds when the callback runs.
\<close>

theorem completion_frame:
  assumes "convert a scoreId body cenv st0 = (resp, st1, Some j)"
    and "completion_try env j st = Inr st'"
  shows "\<exists>c0 c. st1 (j_conversionId j) = Some (ConvDoc c0)
          \<and> st' (j_conversionId j) = Some (ConvDoc c)
          \<and> c = c0 \<lparr> c_status := Completed, c_audioUrl := t_audioUrl env,
                    c_midiUrl := t_midiUrl env,
                    c_audioPath := Some (j_userId j @ ''/'' @ j_conversionId j @ ''.mp3''),
                    c_midiPath := Some (j_userId j @ ''/'' @ j_conversionId j @ ''.mid''),
                    c_completedAt := Some (t_completedAt env) \<rparr>
          \<and> c_id c = c_id c0 \<and> c_scoreId c = c_scoreId c0 \<and> c_userId c = c_userId c0
          \<and> c_instruments c = c_instruments c0 \<and> c_satbConfig c = c_satbConfig c0
          \<and> c_tempo c = c_tempo c0 \<and> c_createdAt c = c_createdAt c0"
proof -
  from assms(1) obtain uid where j:
    "j_conversionId j = mkConversionId uid (cv_now cenv)" "j_userId j = uid"
    "st1 = kv_set st0 (j_conversionId j) (ConvDoc (j_conversionData j))"
    by (auto simp: convert_def Let_def split: auth.splits option.splits if_splits)
  have 1: "st1 (j_conversionId j) = Some (ConvDoc (j_conversionData j))"
    by (simp add: j(3) kv_set_def)
  from assms(2) have 2: "st' (j_conversionId j) =
      Some (ConvDoc ((j_conversionData j)
        \<lparr> c_status := Completed, c_audioUrl := t_audioUrl env, c_midiUrl := t_midiUrl env,
          c_audioPath := Some (j_userId j @ ''/'' @ j_conversionId j @ ''.mp3''),
          c_midiPath := Some (j_userId j @ ''/'' @ j_conversionId j @ ''.mid''),
          c_completedAt := Some (t_completedAt env) \<rparr>))"
    unfolding completion_try_def Let_def
    by (auto simp: kv_set_def j(1,2) conversionId_not_index split: if_splits option.splits)
  from 1 2 show ?thesis by simp
qed

theorem completion_frame_witness:
  "convert (AuthUser ''u1'') ''score_u1_7'' (Some ex_body) ex_convert_env ex_store =
     (Inr \<lparr> r_conversionId = ''conversion_u1_9'', r_status = Processing,
            r_message = ''Conversion started. Check status using the conversion ID.'' \<rparr>,
      ex_store(''conversion_u1_9'' \<mapsto> ConvDoc ex_conversion), Some ex_job)
   \<and> completion_try ex_completion_env ex_job Map.empty =
       Inr [''conversion_u1_9'' \<mapsto> ConvDoc ex_completed,
            ''user_conversions_u1'' \<mapsto> IdList [''conversion_u1_9'']]
   \<and> (\<exists>c. [''conversion_u1_9'' \<mapsto> ConvDoc ex_completed,
            ''user_conversions_u1'' \<mapsto> IdList [''conversion_u1_9'']] ''conversion_u1_9''
            = Some (ConvDoc c)
          \<and> c_status c = Completed \<and> c_completedAt c = Some 11
          \<and> c_id c = ''conversion_u1_9'' \<and> c_scoreId c = ''score_u1_7''
          \<and> c_userId c = ''u1'' \<and> c_instruments c = [''violin'', ''cello'']
          \<and> c_satbConfig c = [] \<and> c_tempo c = 90 \<and> c_createdAt c = 9)"
proof -
  have t: "completion_try ex_completion_env ex_job Map.empty =
       Inr [''conversion_u1_9'' \<mapsto> ConvDoc ex_completed,
            ''user_conversions_u1'' \<mapsto> IdList [''conversion_u1_9'']]"
    by (simp add: Let_def completion_try_def ex_defs kv_set_def kv_get_def
        userConversionsKey_def)
  have s: "(ex_store(''conversion_u1_9'' \<mapsto> ConvDoc ex_conversion)) ''conversion_u1_9''
             = Some (ConvDoc ex_conversion)"
    by simp
  from completion_frame [OF convert_example t] s
  show ?thesis
    by (simp add: convert_example t) (simp add: ex_defs)
qed

subsection \<open>Missing and foreign entities\<close>

text \<open>
  Claim C4. Take a key that names nothing in one store and, in another store, a document
  that the caller does not own. Convert, Status Read and Delete Score answer the two
  requests alike: with status 404 and one message per route when the store read returns
  (with the same status 500 when it throws), and without changing the store or scheduling
  a callback in either case.
\<close>

theorem not_found_indistinguishable:
  assumes "kv_get st1 k = None" and "kv_get st2 k = Some d" and "doc_userId d \<noteq> Some uid"
  shows "convert (AuthUser uid) k body cenv st1 =
           (if body = None \<or> cv_throw cenv = CThrowGet then Inl convert_exception
            else Inl (HttpError 404 ''Score not found or access denied''), st1, None)
       \<and> convert (AuthUser uid) k body cenv st2 =
           (if body = None \<or> cv_throw cenv = CThrowGet then Inl convert_exception
            else Inl (HttpError 404 ''Score not found or access denied''), st2, None)
       \<and> get_conversion (AuthUser uid) k thr st1 =
           (if thr then Inl (HttpError 500 ''Internal server error fetching conversion'')
            else Inl (HttpError 404 ''Conversion not found or access denied''))
       \<and> get_conversion (AuthUser uid) k thr st2 =
           (if thr then Inl (HttpError 500 ''Internal server error fetching conversion'')
            else Inl (HttpError 404 ''Conversion not found or access denied''))
       \<and> delete_score (AuthUser uid) k dthr st1 =
           (if dthr = DThrowGetScore then Inl delete_exception
            else Inl (HttpError 404 ''Score not found or access denied''), st1)
       \<and> delete_score (AuthUser uid) k dthr st2 =
           (if dthr = DThrowGetScore then Inl delete_exception
            else Inl (HttpError 404 ''Score not found or access denied''), st2)"
  using assms
  by (auto simp: convert_def get_conversion_def delete_score_def Let_def split: option.splits)

text \<open>
  The theorem for the user \<^verbatim>\<open>u2\<close> and the score id of the example: in the empty store the
  score does not exist, in the example store it belongs to \<^verbatim>\<open>u1\<close>.
\<close>

theorem not_found_indistinguishable_witness:
  "kv_get Map.empty ''score_u1_7'' = None
   \<and> kv_get ex_store ''score_u1_7'' = Some (ScoreDoc ex_score)
   \<and> doc_userId (ScoreDoc ex_score) \<noteq> Some ''u2''
   \<and> fst (convert (AuthUser ''u2'') ''score_u1_7'' (Some ex_body) ex_convert_env Map.empty) =
       Inl (HttpError 404 ''Score not found or access denied'')
   \<and> fst (convert (AuthUser ''u2'') ''score_u1_7'' (Some ex_body) ex_convert_env ex_store) =
       Inl (HttpError 404 ''Score not found or access denied'')
   \<and> get_conversion (AuthUser ''u2'') ''score_u1_7'' False Map.empty =
       Inl (HttpError 404 ''Conversion not found or access denied'')
   \<and> get_conversion (AuthUser ''u2'') ''score_u1_7'' False ex_store =
       Inl (HttpError 404 ''Conversion not found or access denied'')
   \<and> delete_score (AuthUser ''u2'') ''score_u1_7'' DNoThrow Map.empty =
       (Inl (HttpError 404 ''Score not found or access denied''), Map.empty)
   \<and> delete_score (AuthUser ''u2'') ''score_u1_7'' DNoThrow ex_store =
       (Inl (HttpError 404 ''Score not found or access denied''), ex_store)"
proof -
  have h: "kv_get Map.empty ''score_u1_7'' = None"
    "kv_get ex_store ''score_u1_7'' = Some (ScoreDoc ex_score)"
    "doc_userId (ScoreDoc ex_score) \<noteq> Some ''u2''"
    by (simp_all add: ex_defs kv_get_def)
  have e: "cv_throw ex_convert_env \<noteq> CThrowGet"
    by (simp add: ex_convert_env_def)
  from not_found_indistinguishable [OF h, of "Some ex_body" ex_convert_env False DNoThrow] h e
  show ?thesis by simp
qed

subsection \<open>Ids\<close>




subsection \<open>Completion\<close>

text \<open>
  Claim C2, as stated, makes the completion step a no-op on a Conversion record that does
  not exist or is not in processing state. The callback never reads the record: run on the
  empty store it creates the completed record, and run on a store whose record is already
  failed it replaces that record by the completed one.
\<close>

theorem completion_writes_without_record:
  "kv_get Map.empty ''conversion_u1_9'' = None
   \<and> completion ex_completion_env ex_job Map.empty ''conversion_u1_9'' =
       Some (ConvDoc ex_completed)
   \<and> c_status (ex_conversion \<lparr> c_status := Failed \<rparr>) = Failed
   \<and> completion ex_completion_env ex_job
         [''conversion_u1_9'' \<mapsto> ConvDoc (ex_conversion \<lparr> c_status := Failed \<rparr>)]
         ''conversion_u1_9'' = Some (ConvDoc ex_completed)
   \<and> c_status ex_completed = Completed"
  by (simp add: Let_def completion_def completion_try_def ex_defs kv_set_def kv_get_def
      userConversionsKey_def)

text \<open>
  Claim C2, amended. The completion step of a Conversion created by Convert writes only
  terminal statuses, and writes them without reading the stored record. After it, the
  store holds under the Conversion id either what it held before (when its writes threw),
  or the record of creation completed (status \<^verbatim>\<open>completed\<close> with the result fields), or
  the record of creation failed (status \<^verbatim>\<open>failed\<close> with the error message); it never
  holds a record that the step wrote with status \<^verbatim>\<open>processing\<close>. When no call throws and
  the user's Conversion index is an array or absent, the completed record is stored
  whatever was stored under the id, also nothing or a terminal record. Every key other than
  the Conversion id and the user's Conversion index keeps its value.
\<close>

theorem completion_writes_terminal_status:
  assumes "convert a scoreId body cenv st0 = (resp, st1, Some j)"
  shows "(completion env j st (j_conversionId j) = st (j_conversionId j)
          \<or> completion env j st (j_conversionId j) =
              Some (ConvDoc ((j_conversionData j)
                \<lparr> c_status := Completed, c_audioUrl := t_audioUrl env,
                  c_midiUrl := t_midiUrl env,
                  c_audioPath := Some (j_userId j @ ''/'' @ j_conversionId j @ ''.mp3''),
                  c_midiPath := Some (j_userId j @ ''/'' @ j_conversionId j @ ''.mid''),
                  c_completedAt := Some (t_completedAt env) \<rparr>))
          \<or> completion env j st (j_conversionId j) =
              Some (ConvDoc ((j_conversionData j)
                \<lparr> c_status := Failed, c_error := Some ''Conversion processing failed'' \<rparr>)))
       \<and> (t_throw env = TNoThrow \<and> get_ids st (userConversionsKey (j_userId j)) \<noteq> None \<longrightarrow>
            completion env j st (j_conversionId j) =
              Some (ConvDoc ((j_conversionData j)
                \<lparr> c_status := Completed, c_audioUrl := t_audioUrl env,
                  c_midiUrl := t_midiUrl env,
                  c_audioPath := Some (j_userId j @ ''/'' @ j_conversionId j @ ''.mp3''),
                  c_midiPath := Some (j_userId j @ ''/'' @ j_conversionId j @ ''.mid''),
                  c_completedAt := Some (t_completedAt env) \<rparr>)))
       \<and> (\<forall>k. k \<noteq> j_conversionId j \<and> k \<noteq> userConversionsKey (j_userId j) \<longrightarrow>
              completion env j st k = st k)"
proof -
  from assms obtain uid where j:
    "j_conversionId j = mkConversionId uid (cv_now cenv)" "j_userId j = uid"
    by (auto simp: convert_def Let_def split: auth.splits option.splits if_splits)
  have ne: "j_conversionId j \<noteq> userConversionsKey (j_userId j)"
    by (simp add: j conversionId_not_index)
  have idx: "get_ids (kv_set st (j_conversionId j) v) (userConversionsKey (j_userId j))
               = get_ids st (userConversionsKey (j_userId j))" for v
    using ne by (rule get_ids_kv_set_other)
  show ?thesis
    unfolding completion_def completion_try_def Let_def idx
    using ne by (auto simp: kv_set_def split: option.splits simp del: get_ids.simps)
qed

text \<open>
  The theorem at the callback of the example conversion, run on the empty store: the
  completed record is created.
\<close>

theorem completion_writes_terminal_status_witness:
  "convert (AuthUser ''u1'') ''score_u1_7'' (Some ex_body) ex_convert_env ex_store =
     (Inr \<lparr> r_conversionId = ''conversion_u1_9'', r_status = Processing,
            r_message = ''Conversion started. Check status using the conversion ID.'' \<rparr>,
      ex_store(''conversion_u1_9'' \<mapsto> ConvDoc ex_conversion), Some ex_job)
   \<and> t_throw ex_completion_env = TNoThrow
   \<and> get_ids Map.empty (userConversionsKey (j_userId ex_job)) \<noteq> None
   \<and> completion ex_completion_env ex_job Map.empty (j_conversionId ex_job) =
       Some (ConvDoc ex_completed)
   \<and> completion ex_completion_env ex_job Map.empty ''score_u1_7'' = Map.empty ''score_u1_7''"
proof -
  have h: "t_throw ex_completion_env = TNoThrow"
    "get_ids Map.empty (userConversionsKey (j_userId ex_job)) \<noteq> None"
    "''score_u1_7'' \<noteq> j_conversionId ex_job"
    "''score_u1_7'' \<noteq> userConversionsKey (j_userId ex_job)"
    by (simp_all add: ex_defs kv_get_def userConversionsKey_def)
  have c: "(j_conversionData ex_job)
      \<lparr> c_status := Completed, c_audioUrl := t_audioUrl ex_completion_env,
        c_midiUrl := t_midiUrl ex_completion_env,
        c_audioPath := Some (j_userId ex_job @ ''/'' @ j_conversionId ex_job @ ''.mp3''),
        c_midiPath := Some (j_userId ex_job @ ''/'' @ j_conversionId ex_job @ ''.mid''),
        c_completedAt := Some (t_completedAt ex_completion_env) \<rparr> = ex_completed"
    by (simp add: ex_defs)
  from completion_writes_terminal_status [OF convert_example, of ex_completion_env Map.empty]
    h convert_example
  show ?thesis unfolding c by blast
qed

text \<open>
  Claim C6 on the code: when the \<^verbatim>\<open>try\<close> block of the callback throws (here at the
  signing of the URLs), the \<^verbatim>\<open>catch\<close> block stores the record of creation with status
  \<^verbatim>\<open>failed\<close> and the error message. That record has no \<^verbatim>\<open>completedAt\<close>, and the
  Conversion id is not appended to the user's Conversion index: the store holds no index
  for the user afterwards.
\<close>

theorem completion_failure_record:
  "completion (ex_completion_env \<lparr> t_throw := TThrowSignedUrl \<rparr>) ex_job
       (ex_store(''conversion_u1_9'' \<mapsto> ConvDoc ex_conversion)) =
     ex_store(''conversion_u1_9'' \<mapsto> ConvDoc (ex_conversion
       \<lparr> c_status := Failed, c_error := Some ''Conversion processing failed'' \<rparr>))
   \<and> c_completedAt (ex_conversion
       \<lparr> c_status := Failed, c_error := Some ''Conversion processing failed'' \<rparr>) = None
   \<and> (ex_store(''conversion_u1_9'' \<mapsto> ConvDoc (ex_conversion
       \<lparr> c_status := Failed, c_error := Some ''Conversion processing failed'' \<rparr>)))
       (userConversionsKey ''u1'') = None"
  by (simp add: Let_def completion_def completion_try_def ex_defs kv_set_def kv_get_def
      userConversionsKey_def)

subsection \<open>Delete score\<close>

text \<open>
  Claim C1 on the code: the user \<^verbatim>\<open>u1\<close> uploads a score, starts a conversion and deletes
  the score before the callback of the conversion has run. The delete handler finds the
  conversions of a score through the user's Conversion index, which the conversion enters
  only at completion: the delete succeeds and leaves the processing Conversion in the
  store; a Status Read on its id returns it; and the callback, when it runs, appends the id
  to the user's Conversion index.
\<close>

theorem delete_leaves_processing_conversion:
  "upload (AuthUser ''u1'') (Some ex_png) ex_upload_env Map.empty =
     (Inr \<lparr> r_scoreId = ''score_u1_7'', r_url = Some ''https://blob/u1/7.png'',
            r_metadata = ex_score \<rparr>, ex_store)
   \<and> convert (AuthUser ''u1'') ''score_u1_7'' (Some ex_body) ex_convert_env ex_store =
     (Inr \<lparr> r_conversionId = ''conversion_u1_9'', r_status = Processing,
            r_message = ''Conversion started. Check status using the conversion ID.'' \<rparr>,
      ex_store(''conversion_u1_9'' \<mapsto> ConvDoc ex_conversion), Some ex_job)
   \<and> delete_score (AuthUser ''u1'') ''score_u1_7'' DNoThrow
       (ex_store(''conversion_u1_9'' \<mapsto> ConvDoc ex_conversion)) =
     (Inr ''Score and all conversions deleted successfully'',
      [''conversion_u1_9'' \<mapsto> ConvDoc ex_conversion, ''user_scores_u1'' \<mapsto> IdList [],
       ''user_conversions_u1'' \<mapsto> IdList []])
   \<and> c_scoreId ex_conversion = ''score_u1_7''
   \<and> get_conversion (AuthUser ''u1'') ''conversion_u1_9'' False
       [''conversion_u1_9'' \<mapsto> ConvDoc ex_conversion, ''user_scores_u1'' \<mapsto> IdList [],
        ''user_conversions_u1'' \<mapsto> IdList []] = Inr (ConvDoc ex_conversion)
   \<and> completion ex_completion_env ex_job
       [''conversion_u1_9'' \<mapsto> ConvDoc ex_conversion, ''user_scores_u1'' \<mapsto> IdList [],
        ''user_conversions_u1'' \<mapsto> IdList []] ''user_conversions_u1'' =
       Some (IdList [''conversion_u1_9''])"
proof (intro conjI)
  show "delete_score (AuthUser ''u1'') ''score_u1_7'' DNoThrow
       (ex_store(''conversion_u1_9'' \<mapsto> ConvDoc ex_conversion)) =
     (Inr ''Score and all conversions deleted successfully'',
      [''conversion_u1_9'' \<mapsto> ConvDoc ex_conversion, ''user_scores_u1'' \<mapsto> IdList [],
       ''user_conversions_u1'' \<mapsto> IdList []])"
    by (auto simp add: Let_def delete_score_def ex_defs kv_set_def kv_get_def kv_del_def
        kv_mget_def userConversionsKey_def userScoresKey_def List.map_filter_simps fun_eq_iff)
  show "get_conversion (AuthUser ''u1'') ''conversion_u1_9'' False
       [''conversion_u1_9'' \<mapsto> ConvDoc ex_conversion, ''user_scores_u1'' \<mapsto> IdList [],
        ''user_conversions_u1'' \<mapsto> IdList []] = Inr (ConvDoc ex_conversion)"
    by (simp add: get_conversion_def kv_get_def ex_defs)
  show "completion ex_completion_env ex_job
       [''conversion_u1_9'' \<mapsto> ConvDoc ex_conversion, ''user_scores_u1'' \<mapsto> IdList [],
        ''user_conversions_u1'' \<mapsto> IdList []] ''user_conversions_u1'' =
       Some (IdList [''conversion_u1_9''])"
    by (simp add: Let_def completion_def completion_try_def ex_defs kv_set_def kv_get_def
        userConversionsKey_def)
qed (simp_all add: upload_example convert_example, simp add: ex_conversion_def)

subsection \<open>Library listing\<close>

text \<open>The multi-get returns, in order, the document of each key that has one.\<close>

lemma kv_mget_concat:
  "kv_mget st ks = concat (map (\<lambda>k. case st k of None \<Rightarrow> [] | Some d \<Rightarrow> [d]) ks)"
  by (induction ks) (auto simp: kv_mget_def kv_get_def List.map_filter_simps split: option.splits)

lemma fetched_iff:
  "(d \<in> set (concat (map (\<lambda>k. case st k of None \<Rightarrow> [] | Some d \<Rightarrow> [d]) ks)))
     = (\<exists>k \<in> set ks. st k = Some d)"
  by (induction ks) (auto split: option.splits)

text \<open>
  The index of a user as the handlers read it: an absent key is the empty array.
\<close>

lemma get_ids_index:
  assumes "st k = None \<and> ids = [] \<or> st k = Some (IdList ids)"
  shows "get_ids st k = Some ids"
  using assms by (auto simp: kv_get_def)

text \<open>
  The grouping loop, when no conversion has the name of an inherited property as its
  \<^verbatim>\<open>scoreId\<close>: it does not throw, and it collects under each key the conversions of that
  key in order.
\<close>

lemma group_step_plain:
  assumes "js_key (doc_scoreId conv) \<notin> set object_prototype_keys"
  shows "group_step acc conv =
     Some (acc(js_key (doc_scoreId conv) \<mapsto>
       (case acc (js_key (doc_scoreId conv)) of None \<Rightarrow> [] | Some cs \<Rightarrow> cs) @ [conv]))"
  using assms by (simp add: group_step_def js_lookup_def Let_def split: option.splits)

lemma reduce_group_plain:
  assumes "\<forall>c \<in> set cs. js_key (doc_scoreId c) \<notin> set object_prototype_keys"
  shows "\<exists>acc'. reduce_group acc cs = Some acc' \<and>
     (\<forall>k. acc' k =
       (if filter (\<lambda>c. js_key (doc_scoreId c) = k) cs = [] then acc k
        else Some ((case acc k of None \<Rightarrow> [] | Some l \<Rightarrow> l)
                   @ filter (\<lambda>c. js_key (doc_scoreId c) = k) cs)))"
  using assms
proof (induction cs arbitrary: acc)
  case Nil
  show ?case by simp
next
  case (Cons c cs)
  let ?k = "js_key (doc_scoreId c)"
  let ?acc1 = "acc(?k \<mapsto> (case acc ?k of None \<Rightarrow> [] | Some cs \<Rightarrow> cs) @ [c])"
  have step: "group_step acc c = Some ?acc1"
    using Cons.prems by (simp add: group_step_plain)
  from Cons.prems have "\<forall>c \<in> set cs. js_key (doc_scoreId c) \<notin> set object_prototype_keys"
    by simp
  from Cons.IH [OF this, of ?acc1] obtain acc' where
    r: "reduce_group ?acc1 cs = Some acc'"
    and l: "\<forall>k. acc' k =
       (if filter (\<lambda>c. js_key (doc_scoreId c) = k) cs = [] then ?acc1 k
        else Some ((case ?acc1 k of None \<Rightarrow> [] | Some l \<Rightarrow> l)
                   @ filter (\<lambda>c. js_key (doc_scoreId c) = k) cs))"
    by blast
  have "reduce_group acc (c # cs) = Some acc'"
    by (simp add: step r)
  moreover have "\<forall>k. acc' k =
       (if filter (\<lambda>c. js_key (doc_scoreId c) = k) (c # cs) = [] then acc k
        else Some ((case acc k of None \<Rightarrow> [] | Some l \<Rightarrow> l)
                   @ filter (\<lambda>c. js_key (doc_scoreId c) = k) (c # cs)))"
  proof
    fix k
    show "acc' k =
       (if filter (\<lambda>c. js_key (doc_scoreId c) = k) (c # cs) = [] then acc k
        else Some ((case acc k of None \<Rightarrow> [] | Some l \<Rightarrow> l)
                   @ filter (\<lambda>c. js_key (doc_scoreId c) = k) (c # cs)))"
      using l [rule_format, of k] by (cases "?k = k") auto
  qed
  ultimately show ?case by blast
qed

lemma conversionsByScore_plain:
  assumes "\<forall>c \<in> set cs. js_key (doc_scoreId c) \<notin> set object_prototype_keys"
  shows "\<exists>byScore. conversionsByScore cs = Some byScore \<and>
     (\<forall>s. conversions_of byScore s =
        (if js_key (doc_id s) \<in> set object_prototype_keys
         then InheritedValue (js_key (doc_id s))
         else Conversions (filter (\<lambda>c. js_key (doc_scoreId c) = js_key (doc_id s)) cs)))"
proof -
  from reduce_group_plain [OF assms, of Map.empty] obtain byScore where
    r: "reduce_group Map.empty cs = Some byScore"
    and l: "\<forall>k. byScore k =
       (if filter (\<lambda>c. js_key (doc_scoreId c) = k) cs = [] then None
        else Some (filter (\<lambda>c. js_key (doc_scoreId c) = k) cs))"
    by auto
  have inh: "k \<in> set object_prototype_keys \<Longrightarrow> byScore k = None" for k
  proof -
    assume k: "k \<in> set object_prototype_keys"
    with assms have "filter (\<lambda>c. js_key (doc_scoreId c) = k) cs = []"
      by (auto simp: filter_empty_conv)
    with l show "byScore k = None" by simp
  qed
  have "\<forall>s. conversions_of byScore s =
        (if js_key (doc_id s) \<in> set object_prototype_keys
         then InheritedValue (js_key (doc_id s))
         else Conversions (filter (\<lambda>c. js_key (doc_scoreId c) = js_key (doc_id s)) cs))"
  proof
    fix s
    show "conversions_of byScore s =
        (if js_key (doc_id s) \<in> set object_prototype_keys
         then InheritedValue (js_key (doc_id s))
         else Conversions (filter (\<lambda>c. js_key (doc_scoreId c) = js_key (doc_id s)) cs))"
    proof (cases "js_key (doc_id s) \<in> set object_prototype_keys")
      case True
      with inh [OF True] show ?thesis
        by (simp add: conversions_of_def js_lookup_def)
    next
      case False
      with l [rule_format, of "js_key (doc_id s)"] show ?thesis
        by (simp add: conversions_of_def js_lookup_def)
    qed
  qed
  with r show ?thesis by (auto simp: conversionsByScore_def)
qed

text \<open>
  The grouping loop, when a conversion has the name of an inherited property as its
  \<^verbatim>\<open>scoreId\<close>: no own property ever has such a name, and the loop throws at the first
  such conversion.
\<close>

lemma reduce_group_throws:
  assumes "\<forall>k \<in> set object_prototype_keys. acc k = None"
    and "\<exists>c \<in> set cs. js_key (doc_scoreId c) \<in> set object_prototype_keys"
  shows "reduce_group acc cs = None"
  using assms
proof (induction cs arbitrary: acc)
  case Nil
  then show ?case by simp
next
  case (Cons c cs)
  show ?case
  proof (cases "js_key (doc_scoreId c) \<in> set object_prototype_keys")
    case True
    with Cons.prems(1) have "acc (js_key (doc_scoreId c)) = None" by blast
    with True have "group_step acc c = None"
      by (simp add: group_step_def js_lookup_def)
    then show ?thesis by simp
  next
    case False
    let ?acc1 = "acc(js_key (doc_scoreId c) \<mapsto>
       (case acc (js_key (doc_scoreId c)) of None \<Rightarrow> [] | Some cs \<Rightarrow> cs) @ [c])"
    from False have step: "group_step acc c = Some ?acc1"
      by (rule group_step_plain)
    from False Cons.prems(1) have inv: "\<forall>k \<in> set object_prototype_keys. ?acc1 k = None"
      by auto
    from False Cons.prems(2)
    have "\<exists>c \<in> set cs. js_key (doc_scoreId c) \<in> set object_prototype_keys"
      by auto
    from Cons.IH [OF inv this] have r: "reduce_group ?acc1 cs = None" .
    show ?thesis
      unfolding reduce_group.simps step by (simp only: option.case r)
  qed
qed

lemma conversionsByScore_throws:
  assumes "\<exists>c \<in> set cs. js_key (doc_scoreId c) \<in> set object_prototype_keys"
  shows "conversionsByScore cs = None"
  unfolding conversionsByScore_def
  by (rule reduce_group_throws) (simp, rule assms)

text \<open>
  A conversion whose \<^verbatim>\<open>scoreId\<close> is \<^verbatim>\<open>constructor\<close> under the user's Conversion index:
  the grouping throws and the handler answers with status 500.
\<close>

lemma library_inherited_key_example:
  "library (AuthUser ''u1'') (\<lambda>xs. xs) False
     (ex_store(''conversion_u1_9'' \<mapsto> ConvDoc (ex_conversion \<lparr> c_scoreId := ''constructor'' \<rparr>),
               ''user_conversions_u1'' \<mapsto> IdList [''conversion_u1_9''])) =
     Inl (HttpError 500 ''Internal server error fetching library'')"
  by (simp add: library_def Let_def kv_mget_def kv_get_def List.map_filter_simps
      userScoresKey_def userConversionsKey_def ex_store_def conversionsByScore_def
      group_step_def js_lookup_def js_key_def object_prototype_keys_def ex_conversion_def)

text \<open>The sort permutes its input and, for a comparator that follows a key, orders it.\<close>

lemma mset_insert_sorted: "mset (insert_sorted cmp x xs) = add_mset x (mset xs)"
  by (induction xs) auto

lemma mset_js_sort: "mset (js_sort cmp xs) = mset xs"
  unfolding js_sort_def by (induction xs) (auto simp: mset_insert_sorted)

lemma set_js_sort: "set (js_sort cmp xs) = set xs"
  using mset_js_sort [of cmp xs] by (metis set_mset_mset)

lemma set_insert_sorted: "set (insert_sorted cmp x xs) = insert x (set xs)"
  using mset_insert_sorted [of cmp x xs] by (metis set_mset_mset set_mset_add_mset_insert)

lemma sorted_insert_sorted:
  assumes "\<And>a b. a \<in> insert x (set xs) \<Longrightarrow> b \<in> insert x (set xs)
             \<Longrightarrow> (cmp a b \<le> 0) = (key b \<le> key a)"
    and "sorted_wrt (\<lambda>a b. (key b :: nat) \<le> key a) xs"
  shows "sorted_wrt (\<lambda>a b. key b \<le> key a) (insert_sorted cmp x xs)"
  using assms
proof (induction xs)
  case Nil
  then show ?case by simp
next
  case (Cons y ys)
  show ?case
  proof (cases "cmp x y \<le> 0")
    case True
    then have "key y \<le> key x" using Cons.prems(1) [of x y] by simp
    with True Cons.prems(2) show ?thesis by fastforce
  next
    case False
    then have xy: "key x \<le> key y" using Cons.prems(1) [of x y] by simp
    have "sorted_wrt (\<lambda>a b. key b \<le> key a) (insert_sorted cmp x ys)"
    proof (rule Cons.IH)
      fix a b assume "a \<in> insert x (set ys)" and "b \<in> insert x (set ys)"
      then show "(cmp a b \<le> 0) = (key b \<le> key a)"
        using Cons.prems(1) [of a b] by auto
    next
      show "sorted_wrt (\<lambda>a b. key b \<le> key a) ys"
        using Cons.prems(2) by simp
    qed
    with False xy Cons.prems(2) show ?thesis
      by (auto simp: set_insert_sorted)
  qed
qed

lemma sorted_js_sort:
  assumes "\<And>a b. a \<in> set xs \<Longrightarrow> b \<in> set xs \<Longrightarrow> (cmp a b \<le> 0) = (key b \<le> key a)"
  shows "sorted_wrt (\<lambda>a b. (key b :: nat) \<le> key a) (js_sort cmp xs)"
  using assms
proof (induction xs)
  case Nil
  show ?case by (simp add: js_sort_def)
next
  case (Cons x xs)
  have IH: "sorted_wrt (\<lambda>a b. key b \<le> key a) (js_sort cmp xs)"
    using Cons by simp
  have "sorted_wrt (\<lambda>a b. key b \<le> key a) (insert_sorted cmp x (js_sort cmp xs))"
    by (rule sorted_insert_sorted [OF _ IH]) (use Cons.prems in \<open>auto simp: set_js_sort\<close>)
  then show ?case by (simp add: js_sort_def)
qed

lemma sorted_by_uploadedAt:
  assumes "\<forall>e \<in> set xs. doc_uploadedAt (fst e) \<noteq> None"
  shows "sorted_wrt (\<lambda>a b. \<exists>ta tb. doc_uploadedAt (fst a) = Some ta
            \<and> doc_uploadedAt (fst b) = Some tb \<and> tb \<le> ta) (js_sort compare_uploaded xs)"
proof -
  let ?key = "\<lambda>e :: doc \<times> 'a. case doc_uploadedAt (fst e) of None \<Rightarrow> 0 | Some t \<Rightarrow> t"
  have key: "sorted_wrt (\<lambda>a b. ?key b \<le> ?key a) (js_sort compare_uploaded xs)"
  proof (rule sorted_js_sort)
    fix a b assume "a \<in> set xs" and "b \<in> set xs"
    with assms have "doc_uploadedAt (fst a) \<noteq> None" "doc_uploadedAt (fst b) \<noteq> None"
      by blast+
    then obtain ta tb where "doc_uploadedAt (fst a) = Some ta"
      "doc_uploadedAt (fst b) = Some tb" by blast
    then show "(compare_uploaded a b \<le> 0) = (?key b \<le> ?key a)"
      by (simp add: compare_uploaded_def)
  qed
  show ?thesis
  proof (rule sorted_wrt_mono_rel [OF _ key])
    fix a b
    assume "a \<in> set (js_sort compare_uploaded xs)" and "b \<in> set (js_sort compare_uploaded xs)"
      and le: "?key b \<le> ?key a"
    with assms have "doc_uploadedAt (fst a) \<noteq> None" "doc_uploadedAt (fst b) \<noteq> None"
      by (simp_all add: set_js_sort)
    then obtain ta tb where t: "doc_uploadedAt (fst a) = Some ta"
      "doc_uploadedAt (fst b) = Some tb" by blast
    with le show "\<exists>ta tb. doc_uploadedAt (fst a) = Some ta
            \<and> doc_uploadedAt (fst b) = Some tb \<and> tb \<le> ta"
      by simp
  qed
qed

lemma mset_sort_library:
  assumes "\<forall>xs. mset (runtime_order xs) = mset xs"
  shows "mset (sort_library runtime_order lib) = mset lib"
  using assms by (simp add: sort_library_def mset_js_sort)

lemma sorted_sort_library:
  assumes "\<forall>e \<in> set lib. doc_uploadedAt (fst e) \<noteq> None"
  shows "sorted_wrt (\<lambda>a b. \<exists>ta tb. doc_uploadedAt (fst a) = Some ta
            \<and> doc_uploadedAt (fst b) = Some tb \<and> tb \<le> ta) (sort_library runtime_order lib)"
proof -
  from assms have "list_all (\<lambda>e. doc_uploadedAt (fst e) \<noteq> None) lib"
    by (simp add: list_all_iff)
  then have "sort_library runtime_order lib = js_sort compare_uploaded lib"
    by (simp add: sort_library_def)
  with sorted_by_uploadedAt [OF assms] show ?thesis by simp
qed

text \<open>
  Claim C7, as stated, attaches to each Score the Conversions whose \<^verbatim>\<open>scoreId\<close> is the
  id of the Score. The handler attaches only the Conversions that it reaches through the
  user's Conversion index. Right after the Convert call of the example the store holds the
  processing Conversion of the score, the user has no Conversion index yet, and the library
  lists the score without any conversion.
\<close>

theorem library_omits_unindexed_conversion:
  "convert (AuthUser ''u1'') ''score_u1_7'' (Some ex_body) ex_convert_env ex_store =
     (Inr \<lparr> r_conversionId = ''conversion_u1_9'', r_status = Processing,
            r_message = ''Conversion started. Check status using the conversion ID.'' \<rparr>,
      ex_store(''conversion_u1_9'' \<mapsto> ConvDoc ex_conversion), Some ex_job)
   \<and> kv_get (ex_store(''conversion_u1_9'' \<mapsto> ConvDoc ex_conversion)) ''conversion_u1_9'' =
       Some (ConvDoc ex_conversion)
   \<and> c_scoreId ex_conversion = s_id ex_score
   \<and> library (AuthUser ''u1'') (\<lambda>xs. xs) False
       (ex_store(''conversion_u1_9'' \<mapsto> ConvDoc ex_conversion)) =
       Inr [(ScoreDoc ex_score, Conversions [])]"
proof (intro conjI)
  show "library (AuthUser ''u1'') (\<lambda>xs. xs) False
       (ex_store(''conversion_u1_9'' \<mapsto> ConvDoc ex_conversion)) =
       Inr [(ScoreDoc ex_score, Conversions [])]"
    by (simp add: library_def Let_def kv_mget_def kv_get_def List.map_filter_simps
        userScoresKey_def userConversionsKey_def ex_store_def conversionsByScore_def
        conversions_of_def js_lookup_def js_key_def object_prototype_keys_def
        sort_library_def js_sort_def ex_score_def)
qed (simp_all add: convert_example kv_get_def, simp add: ex_defs)

text \<open>
  Claim C7, amended. Let the user's Score index and Conversion index each be absent or an
  array, let the store reads not throw, and let the runtime's sort permute its array. When
  a document reached through the Conversion index has the name of a property of
  \<^verbatim>\<open>Object.prototype\<close> as its \<^verbatim>\<open>scoreId\<close>, the handler answers with status 500.
  Otherwise it returns a list \<open>lib\<close>, not an error, such that
  \<^item> its entries are exactly the documents that the store holds under the ids of the user's
    Score index, an id without a record contributing nothing, each with the documents
    reached through the user's Conversion index whose \<^verbatim>\<open>scoreId\<close> is its \<^verbatim>\<open>id\<close>, in
    fetch order (and, for a document whose id is the name of an inherited property, with the
    inherited value instead);
  \<^item> for a Score document \<open>s\<close> these are the indexed Conversion documents \<open>c\<close> with
    \<open>c_scoreId c = s_id s\<close>;
  \<^item> when the documents under the Score index have an \<^verbatim>\<open>uploadedAt\<close>, the list is ordered
    by it, newest first;
  \<^item> a user without a Score index, or with an empty one, receives the empty list.
\<close>

theorem library_listing:
  assumes "st (userScoresKey uid) = None \<and> scoreIds = []
           \<or> st (userScoresKey uid) = Some (IdList scoreIds)"
    and "st (userConversionsKey uid) = None \<and> conversionIds = []
         \<or> st (userConversionsKey uid) = Some (IdList conversionIds)"
    and "\<forall>xs. mset (runtime_order xs) = mset xs"
  shows "((\<forall>k \<in> set conversionIds. \<forall>d. st k = Some d \<longrightarrow>
            js_key (doc_scoreId d) \<notin> set object_prototype_keys) \<longrightarrow>
    (\<exists>lib. library (AuthUser uid) runtime_order False st = Inr lib
     \<and> mset lib =
         mset (map (\<lambda>d. (d,
                 if js_key (doc_id d) \<in> set object_prototype_keys
                 then InheritedValue (js_key (doc_id d))
                 else Conversions
                   (filter (\<lambda>c. js_key (doc_scoreId c) = js_key (doc_id d))
                     (concat (map (\<lambda>k. case st k of None \<Rightarrow> [] | Some c \<Rightarrow> [c])
                        conversionIds)))))
               (concat (map (\<lambda>k. case st k of None \<Rightarrow> [] | Some d \<Rightarrow> [d]) scoreIds)))
     \<and> (\<forall>s a. (ScoreDoc s, a) \<in> set lib \<and> s_id s \<notin> set object_prototype_keys \<longrightarrow>
           (\<exists>cs. a = Conversions cs \<and>
              (\<forall>c. (ConvDoc c \<in> set cs) =
                 (c_scoreId c = s_id s
                  \<and> (\<exists>k \<in> set conversionIds. st k = Some (ConvDoc c))))))
     \<and> ((\<forall>k \<in> set scoreIds. \<forall>d. st k = Some d \<longrightarrow> doc_uploadedAt d \<noteq> None) \<longrightarrow>
          sorted_wrt (\<lambda>a b. \<exists>ta tb. doc_uploadedAt (fst a) = Some ta
            \<and> doc_uploadedAt (fst b) = Some tb \<and> tb \<le> ta) lib)
     \<and> (st (userScoresKey uid) = None \<or> scoreIds = [] \<longrightarrow> lib = [])))
   \<and> ((\<exists>k \<in> set conversionIds. \<exists>d. st k = Some d
            \<and> js_key (doc_scoreId d) \<in> set object_prototype_keys) \<longrightarrow>
        library (AuthUser uid) runtime_order False st =
          Inl (HttpError 500 ''Internal server error fetching library''))"
  (is "(?plain \<longrightarrow> ?listing) \<and> (?inherited \<longrightarrow> ?error)")
proof (intro conjI impI)
  assume plain_keys: ?plain
  let ?fetch = "\<lambda>ks. concat (map (\<lambda>k. case st k of None \<Rightarrow> [] | Some d \<Rightarrow> [d]) ks)"
  let ?scores = "?fetch scoreIds"
  let ?convs = "?fetch conversionIds"
  let ?attach = "\<lambda>d. if js_key (doc_id d) \<in> set object_prototype_keys
                 then InheritedValue (js_key (doc_id d))
                 else Conversions
                   (filter (\<lambda>c. js_key (doc_scoreId c) = js_key (doc_id d)) ?convs)"
  let ?entries = "map (\<lambda>d. (d, ?attach d)) ?scores"
  let ?lib = "sort_library runtime_order ?entries"
  have plain: "\<forall>c \<in> set ?convs. js_key (doc_scoreId c) \<notin> set object_prototype_keys"
  proof
    fix c assume "c \<in> set ?convs"
    then obtain k where "k \<in> set conversionIds" "st k = Some c"
      unfolding fetched_iff by blast
    with plain_keys show "js_key (doc_scoreId c) \<notin> set object_prototype_keys" by blast
  qed
  from conversionsByScore_plain [OF plain] obtain byScore where
    g: "conversionsByScore ?convs = Some byScore"
    and a: "\<forall>s. conversions_of byScore s = ?attach s"
    by blast
  have ids: "get_ids st (userScoresKey uid) = Some scoreIds"
    "get_ids st (userConversionsKey uid) = Some conversionIds"
    using assms(1,2) by (simp_all only: get_ids_index)
  have lib: "library (AuthUser uid) runtime_order False st = Inr ?lib"
    unfolding library_def Let_def kv_mget_concat
    by (simp add: ids g a del: get_ids.simps)
  have 1: "mset ?lib = mset ?entries"
    using assms(3) by (rule mset_sort_library)
  then have "set_mset (mset ?lib) = set_mset (mset ?entries)"
    by (rule arg_cong)
  then have set_lib: "set ?lib = set ?entries"
    by (simp only: set_mset_mset)
  have 2: "\<forall>s a. (ScoreDoc s, a) \<in> set ?lib \<and> s_id s \<notin> set object_prototype_keys \<longrightarrow>
           (\<exists>cs. a = Conversions cs \<and>
              (\<forall>c. (ConvDoc c \<in> set cs) =
                 (c_scoreId c = s_id s
                  \<and> (\<exists>k \<in> set conversionIds. st k = Some (ConvDoc c)))))"
  proof (intro allI impI)
    fix s a
    assume h: "(ScoreDoc s, a) \<in> set ?lib \<and> s_id s \<notin> set object_prototype_keys"
    then have "(ScoreDoc s, a) \<in> set ?entries" by (simp only: set_lib)
    then have "a = ?attach (ScoreDoc s)" by auto
    with h have a: "a = Conversions
        (filter (\<lambda>c. js_key (doc_scoreId c) = js_key (doc_id (ScoreDoc s))) ?convs)"
      by (simp add: js_key_def)
    have "\<forall>c. (ConvDoc c \<in> set
            (filter (\<lambda>c. js_key (doc_scoreId c) = js_key (doc_id (ScoreDoc s))) ?convs)) =
          (c_scoreId c = s_id s \<and> (\<exists>k \<in> set conversionIds. st k = Some (ConvDoc c)))"
    proof
      fix c
      have "(ConvDoc c \<in> set
            (filter (\<lambda>c. js_key (doc_scoreId c) = js_key (doc_id (ScoreDoc s))) ?convs)) =
          (ConvDoc c \<in> set ?convs
           \<and> js_key (doc_scoreId (ConvDoc c)) = js_key (doc_id (ScoreDoc s)))"
        by (simp only: set_filter mem_Collect_eq)
      also have "\<dots> =
          (c_scoreId c = s_id s \<and> (\<exists>k \<in> set conversionIds. st k = Some (ConvDoc c)))"
        unfolding fetched_iff by (auto simp: js_key_def)
      finally show "(ConvDoc c \<in> set
            (filter (\<lambda>c. js_key (doc_scoreId c) = js_key (doc_id (ScoreDoc s))) ?convs)) =
          (c_scoreId c = s_id s \<and> (\<exists>k \<in> set conversionIds. st k = Some (ConvDoc c)))" .
    qed
    with a show "\<exists>cs. a = Conversions cs \<and>
              (\<forall>c. (ConvDoc c \<in> set cs) =
                 (c_scoreId c = s_id s
                  \<and> (\<exists>k \<in> set conversionIds. st k = Some (ConvDoc c))))"
      by blast
  qed
  have 3: "(\<forall>k \<in> set scoreIds. \<forall>d. st k = Some d \<longrightarrow> doc_uploadedAt d \<noteq> None) \<longrightarrow>
          sorted_wrt (\<lambda>a b. \<exists>ta tb. doc_uploadedAt (fst a) = Some ta
            \<and> doc_uploadedAt (fst b) = Some tb \<and> tb \<le> ta) ?lib"
  proof
    assume d: "\<forall>k \<in> set scoreIds. \<forall>d. st k = Some d \<longrightarrow> doc_uploadedAt d \<noteq> None"
    have "\<forall>e \<in> set ?entries. doc_uploadedAt (fst e) \<noteq> None"
    proof
      fix e assume "e \<in> set ?entries"
      then have "fst e \<in> set ?scores" by auto
      then obtain k where "k \<in> set scoreIds" "st k = Some (fst e)"
        unfolding fetched_iff by blast
      with d show "doc_uploadedAt (fst e) \<noteq> None" by blast
    qed
    then show "sorted_wrt (\<lambda>a b. \<exists>ta tb. doc_uploadedAt (fst a) = Some ta
            \<and> doc_uploadedAt (fst b) = Some tb \<and> tb \<le> ta) ?lib"
      by (rule sorted_sort_library)
  qed
  have 4: "st (userScoresKey uid) = None \<or> scoreIds = [] \<longrightarrow> ?lib = []"
  proof
    assume "st (userScoresKey uid) = None \<or> scoreIds = []"
    with assms(1) have "scoreIds = []" by auto
    then show "?lib = []" by (simp add: sort_library_def js_sort_def)
  qed
  from lib 1 2 3 4 show ?listing by blast
next
  assume inherited_key: ?inherited
  let ?convs = "concat (map (\<lambda>k. case st k of None \<Rightarrow> [] | Some d \<Rightarrow> [d]) conversionIds)"
  from inherited_key obtain k d where kd: "k \<in> set conversionIds" "st k = Some d"
    "js_key (doc_scoreId d) \<in> set object_prototype_keys"
    by blast
  from kd(1,2) have "d \<in> set ?convs"
    unfolding fetched_iff by blast
  with kd(3)
  have "\<exists>c \<in> set ?convs. js_key (doc_scoreId c) \<in> set object_prototype_keys"
    by blast
  then have g: "conversionsByScore ?convs = None"
    by (rule conversionsByScore_throws)
  have ids: "get_ids st (userScoresKey uid) = Some scoreIds"
    "get_ids st (userConversionsKey uid) = Some conversionIds"
    using assms(1,2) by (simp_all only: get_ids_index)
  show ?error
    unfolding library_def Let_def kv_mget_concat
    by (simp add: ids g del: get_ids.simps)
qed

text \<open>
  The theorem at the example library (the entry of the index without a record is left
  out, the score uploaded at 12 comes before the score uploaded at 7, the completed
  conversion is attached to its score), at a user who has no index in that store, and at
  an indexed conversion whose \<^verbatim>\<open>scoreId\<close> is \<^verbatim>\<open>constructor\<close>.
\<close>

theorem library_listing_witness:
  "ex_library_store (userScoresKey ''u1'') =
     Some (IdList [''score_u1_7'', ''score_u1_10'', ''score_u1_12''])
   \<and> ex_library_store (userConversionsKey ''u1'') = Some (IdList [''conversion_u1_9''])
   \<and> library (AuthUser ''u1'') (\<lambda>xs. xs) False ex_library_store =
       Inr [(ScoreDoc ex_score2, Conversions []),
            (ScoreDoc ex_score, Conversions [ConvDoc ex_completed])]
   \<and> (\<exists>lib. library (AuthUser ''u1'') (\<lambda>xs. xs) False ex_library_store = Inr lib
        \<and> mset lib = mset [(ScoreDoc ex_score, Conversions [ConvDoc ex_completed]),
                            (ScoreDoc ex_score2, Conversions [])]
        \<and> sorted_wrt (\<lambda>a b. \<exists>ta tb. doc_uploadedAt (fst a) = Some ta
            \<and> doc_uploadedAt (fst b) = Some tb \<and> tb \<le> ta) lib)
   \<and> ex_library_store (userScoresKey ''u2'') = None
   \<and> ex_library_store (userConversionsKey ''u2'') = None
   \<and> library (AuthUser ''u2'') (\<lambda>xs. xs) False ex_library_store = Inr []
   \<and> library (AuthUser ''u1'') (\<lambda>xs. xs) False
       (ex_store(''conversion_u1_9'' \<mapsto>
                   ConvDoc (ex_conversion \<lparr> c_scoreId := ''constructor'' \<rparr>),
                 ''user_conversions_u1'' \<mapsto> IdList [''conversion_u1_9''])) =
       Inl (HttpError 500 ''Internal server error fetching library'')"
proof -
  let ?st = "ex_store(''conversion_u1_9'' \<mapsto>
                   ConvDoc (ex_conversion \<lparr> c_scoreId := ''constructor'' \<rparr>),
                 ''user_conversions_u1'' \<mapsto> IdList [''conversion_u1_9''])"
  have k: "?st (userScoresKey ''u1'') = None \<and> [''score_u1_7''] = []
           \<or> ?st (userScoresKey ''u1'') = Some (IdList [''score_u1_7''])"
    "?st (userConversionsKey ''u1'') = None \<and> [''conversion_u1_9''] = []
     \<or> ?st (userConversionsKey ''u1'') = Some (IdList [''conversion_u1_9''])"
    by (simp_all add: ex_store_def userScoresKey_def userConversionsKey_def)
  have i: "\<exists>k \<in> set [''conversion_u1_9'']. \<exists>d. ?st k = Some d
            \<and> js_key (doc_scoreId d) \<in> set object_prototype_keys"
    by (simp add: js_key_def object_prototype_keys_def)
  have h: "ex_library_store (userScoresKey ''u1'') = None
             \<and> [''score_u1_7'', ''score_u1_10'', ''score_u1_12''] = []
           \<or> ex_library_store (userScoresKey ''u1'') =
             Some (IdList [''score_u1_7'', ''score_u1_10'', ''score_u1_12''])"
    "ex_library_store (userConversionsKey ''u1'') = None \<and> [''conversion_u1_9''] = []
     \<or> ex_library_store (userConversionsKey ''u1'') = Some (IdList [''conversion_u1_9''])"
    by (simp_all add: ex_library_store_def userScoresKey_def userConversionsKey_def)
  have h': "ex_library_store (userScoresKey ''u1'') =
             Some (IdList [''score_u1_7'', ''score_u1_10'', ''score_u1_12''])"
    "ex_library_store (userConversionsKey ''u1'') = Some (IdList [''conversion_u1_9''])"
    by (simp_all add: ex_library_store_def userScoresKey_def userConversionsKey_def)
  have p: "\<forall>k \<in> set [''conversion_u1_9'']. \<forall>d. ex_library_store k = Some d \<longrightarrow>
             js_key (doc_scoreId d) \<notin> set object_prototype_keys"
    by (simp add: ex_defs js_key_def object_prototype_keys_def)
  have r: "\<forall>xs :: (doc \<times> attached) list. mset ((\<lambda>xs. xs) xs) = mset xs"
    by simp
  have u: "\<forall>k \<in> set [''score_u1_7'', ''score_u1_10'', ''score_u1_12''].
             \<forall>d. ex_library_store k = Some d \<longrightarrow> doc_uploadedAt d \<noteq> None"
    by (simp add: ex_library_store_def)
  have c: "map (\<lambda>d. (d,
                 if js_key (doc_id d) \<in> set object_prototype_keys
                 then InheritedValue (js_key (doc_id d))
                 else Conversions
                   (filter (\<lambda>c. js_key (doc_scoreId c) = js_key (doc_id d))
                     (concat (map (\<lambda>k. case ex_library_store k of None \<Rightarrow> [] | Some c \<Rightarrow> [c])
                        [''conversion_u1_9''])))))
               (concat (map (\<lambda>k. case ex_library_store k of None \<Rightarrow> [] | Some d \<Rightarrow> [d])
                  [''score_u1_7'', ''score_u1_10'', ''score_u1_12'']))
           = [(ScoreDoc ex_score, Conversions [ConvDoc ex_completed]),
              (ScoreDoc ex_score2, Conversions [])]"
    by (simp add: ex_defs js_key_def object_prototype_keys_def)
  from library_listing [where st = ex_library_store and uid = "''u1''"
      and scoreIds = "[''score_u1_7'', ''score_u1_10'', ''score_u1_12'']"
      and conversionIds = "[''conversion_u1_9'']" and runtime_order = "\<lambda>xs. xs",
      OF h r] p u
  obtain lib where l: "library (AuthUser ''u1'') (\<lambda>xs. xs) False ex_library_store = Inr lib"
    "mset lib = mset [(ScoreDoc ex_score, Conversions [ConvDoc ex_completed]),
                      (ScoreDoc ex_score2, Conversions [])]"
    "sorted_wrt (\<lambda>a b. \<exists>ta tb. doc_uploadedAt (fst a) = Some ta
            \<and> doc_uploadedAt (fst b) = Some tb \<and> tb \<le> ta) lib"
    unfolding c by blast
  have e: "library (AuthUser ''u1'') (\<lambda>xs. xs) False ex_library_store =
       Inr [(ScoreDoc ex_score2, Conversions []),
            (ScoreDoc ex_score, Conversions [ConvDoc ex_completed])]"
    by (simp add: library_def Let_def kv_mget_def kv_get_def List.map_filter_simps
        userScoresKey_def userConversionsKey_def ex_defs conversionsByScore_def
        group_step_def conversions_of_def js_lookup_def js_key_def object_prototype_keys_def
        sort_library_def js_sort_def compare_uploaded_def)
  have n: "ex_library_store (userScoresKey ''u2'') = None \<and> ([] :: string list) = []
           \<or> ex_library_store (userScoresKey ''u2'') = Some (IdList [])"
    "ex_library_store (userConversionsKey ''u2'') = None \<and> ([] :: string list) = []
     \<or> ex_library_store (userConversionsKey ''u2'') = Some (IdList [])"
    by (simp_all add: ex_library_store_def userScoresKey_def userConversionsKey_def)
  have n': "ex_library_store (userScoresKey ''u2'') = None"
    "ex_library_store (userConversionsKey ''u2'') = None"
    by (simp_all add: ex_library_store_def userScoresKey_def userConversionsKey_def)
  from library_listing [where st = ex_library_store and uid = "''u2''"
      and scoreIds = "[]" and conversionIds = "[]" and runtime_order = "\<lambda>xs. xs",
      OF n r] n'(1)
  have new: "library (AuthUser ''u2'') (\<lambda>xs. xs) False ex_library_store = Inr []"
    by auto
  from library_listing [where st = ?st and uid = "''u1''"
      and scoreIds = "[''score_u1_7'']" and conversionIds = "[''conversion_u1_9'']"
      and runtime_order = "\<lambda>xs. xs", OF k r] i
  have err: "library (AuthUser ''u1'') (\<lambda>xs. xs) False ?st =
       Inl (HttpError 500 ''Internal server error fetching library'')"
    by blast
  from h' l e n' new err show ?thesis by blast
qed

end
